theory Spec2Isabelle
  imports Main "HOL-Library.Word"
begin

section \<open>JavaScript values, exceptions and the runtime\<close>

text \<open>
  A thrown value is either an \<open>Error\<close> instance carrying its message, or some other value
  (the \<open>error instanceof Error\<close> tests of the source distinguish the two).
\<close>

datatype js_exn = Error string | NonError

type_synonym byte = "8 word"
type_synonym bytes = "byte list"

text \<open>The request and response of one \<open>fetch\<close> call.\<close>

datatype json = JString string | JArray "json list" | JObject "(string \<times> json) list"

record blob =
  blob_content :: json
  blob_type :: string

datatype body_init =
    NoBody
  | JSON_stringify json
  | TextBody string
  | FormData "(string \<times> blob \<times> string option) list"

record request =
  req_url :: string
  req_method :: string
  req_headers :: "(string \<times> string) list"
  req_body :: body_init

text \<open>
  The uniform envelope \<open>{success, errors[], messages[], result}\<close> of the remote API
  (\<open>CloudflareApiResponse\<close> in \<open>types/index.ts\<close>). Of \<open>result\<close> the services read the
  \<open>id\<close> member only (\<open>CloudflareKVNamespace.id\<close>, \<open>CloudflareWorkerRoute.id\<close>).
\<close>

record cf_api_error =
  code :: int
  message :: string

record cf_result =
  result_id :: string

record CloudflareApiResponse =
  success :: bool
  errors :: "cf_api_error list"
  messages :: "string list"
  result :: cf_result

record response =
  ok :: bool
  json :: "js_exn + CloudflareApiResponse"
  text_body :: "js_exn + string"
  headers_get :: "string \<Rightarrow> string option"

text \<open>
  The runtime the code runs on is not part of the repository: it is a parameter of the
  model. \<open>'w\<close> is the state of everything outside the process (the remote platform, the
  network, the random generator, the clock); \<open>'k\<close> is the type of imported key handles.
  \<^item> \<open>fetch\<close>: one HTTP exchange; it may throw, and it may change the outside world;
  \<^item> \<open>getRandomValues n\<close>: \<open>crypto.getRandomValues(new Uint8Array(n))\<close>;
  \<^item> \<open>datetime_now\<close>: what SQL's \<open>datetime('now')\<close> evaluates to;
  \<^item> \<open>atob\<close>, \<open>btoa\<close>, \<open>trim\<close>, \<open>TextEncoder_encode\<close>, \<open>TextDecoder_decode\<close>: the
    built-ins of these names;
  \<^item> \<open>importKey\<close>, \<open>subtle_encrypt\<close>, \<open>subtle_decrypt\<close>: \<open>crypto.subtle\<close> for
    \<open>{name: 'AES-GCM', length: 256}\<close>, the second argument of \<open>importKey\<close> being the key
    usage, the first argument of the other two the \<open>iv\<close>;
  \<^item> \<open>digest_SHA256\<close>: \<open>crypto.subtle.digest('SHA-256', _)\<close>;
  \<^item> \<open>spread_error n\<close>: what a call that spreads an array of \<open>n\<close> elements into its
    arguments throws, if anything (the engine's \<open>RangeError\<close> beyond its argument limit);
  \<^item> \<open>getClientWorkerCode\<close>: the fixed worker program text of
    \<open>templates/client-worker.ts\<close>, opaque here.
\<close>

record ('w, 'k) platform =
  fetch :: "request \<Rightarrow> 'w \<Rightarrow> (js_exn + response) \<times> 'w"
  getRandomValues :: "nat \<Rightarrow> 'w \<Rightarrow> bytes \<times> 'w"
  datetime_now :: "'w \<Rightarrow> string"
  atob :: "string \<Rightarrow> js_exn + string"
  btoa :: "string \<Rightarrow> js_exn + string"
  trim :: "string \<Rightarrow> string"
  TextEncoder_encode :: "string \<Rightarrow> bytes"
  TextDecoder_decode :: "bytes \<Rightarrow> string"
  importKey :: "bytes \<Rightarrow> string \<Rightarrow> js_exn + 'k"
  subtle_encrypt :: "bytes \<Rightarrow> 'k \<Rightarrow> bytes \<Rightarrow> js_exn + bytes"
  subtle_decrypt :: "bytes \<Rightarrow> 'k \<Rightarrow> bytes \<Rightarrow> js_exn + bytes"
  digest_SHA256 :: "bytes \<Rightarrow> bytes"
  spread_error :: "nat \<Rightarrow> js_exn option"
  getClientWorkerCode :: string

text \<open>Sequencing of steps that may throw: the first exception ends the sequence.\<close>

definition and_then :: "js_exn + 'a \<Rightarrow> ('a \<Rightarrow> js_exn + 'b) \<Rightarrow> js_exn + 'b" where
  "and_then r f = (case r of Inl e \<Rightarrow> Inl e | Inr a \<Rightarrow> f a)"

section \<open>Credential vault (\<open>utils/encryption.ts\<close>)\<close>

text \<open>\<open>Uint8Array.prototype.slice(start, end)\<close> and \<open>slice(start)\<close> for in-range arguments.\<close>

definition slice :: "'a list \<Rightarrow> nat \<Rightarrow> nat \<Rightarrow> 'a list" where
  "slice xs start end = take (end - start) (drop start xs)"

definition slice_from :: "'a list \<Rightarrow> nat \<Rightarrow> 'a list" where
  "slice_from xs start = drop start xs"

definition fromCharCode :: "bytes \<Rightarrow> string" where
  "fromCharCode bs = map (\<lambda>b. char_of (unat b)) bs"

definition charCodes :: "string \<Rightarrow> bytes" where
  "charCodes binary = map (\<lambda>c. of_char c) binary"

text \<open>
  \<open>String.fromCharCode(...bytes)\<close>: the array is spread into the arguments of one call,
  which the engine refuses when there are too many.
\<close>

definition fromCharCode_spread :: "('w, 'k) platform \<Rightarrow> bytes \<Rightarrow> js_exn + string" where
  "fromCharCode_spread P bs =
     (case spread_error P (length bs) of
        Some error \<Rightarrow> Inl error
      | None \<Rightarrow> Inr (fromCharCode bs))"

definition arrayBufferToBase64 :: "('w, 'k) platform \<Rightarrow> bytes \<Rightarrow> js_exn + string" where
  "arrayBufferToBase64 P buffer =
     and_then (fromCharCode_spread P buffer) (\<lambda>binary. btoa P binary)"

definition base64ToArrayBuffer :: "('w, 'k) platform \<Rightarrow> string \<Rightarrow> js_exn + bytes" where
  "base64ToArrayBuffer P base64 = and_then (atob P base64) (\<lambda>binary. Inr (charCodes binary))"

definition error_message :: "js_exn \<Rightarrow> string \<Rightarrow> string" where
  "error_message error dflt = (case error of Error m \<Rightarrow> m | NonError \<Rightarrow> dflt)"

text \<open>
  The guard both functions apply to the decoded key:
  \<open>if (keyData.byteLength > 32) keyData = keyData.slice(0, 32)\<close>.
\<close>

definition truncate_key :: "bytes \<Rightarrow> bytes" where
  "truncate_key keyData = (if length keyData > 32 then slice keyData 0 32 else keyData)"

definition encryptToken ::
  "('w, 'k) platform \<Rightarrow> string \<Rightarrow> string \<Rightarrow> 'w \<Rightarrow> (js_exn + string) \<times> 'w" where
  "encryptToken P plaintext keyString w =
     (case and_then (base64ToArrayBuffer P (trim P keyString)) (\<lambda>keyData.
             importKey P (truncate_key keyData) ''encrypt'') of
        Inl error \<Rightarrow>
          (Inl (Error (''Encryption failed: '' @ error_message error ''Unknown error'')), w)
      | Inr key \<Rightarrow>
          (let (iv, w') = getRandomValues P 12 w;
               data = TextEncoder_encode P plaintext
           in case and_then (subtle_encrypt P iv key data) (\<lambda>ciphertext.
                     arrayBufferToBase64 P (iv @ ciphertext)) of
                Inl error \<Rightarrow>
                  (Inl (Error (''Encryption failed: '' @ error_message error ''Unknown error'')), w')
              | Inr combined \<Rightarrow> (Inr combined, w')))"

definition decryptToken :: "('w, 'k) platform \<Rightarrow> string \<Rightarrow> string \<Rightarrow> js_exn + string" where
  "decryptToken P ciphertext keyString =
     (case and_then (base64ToArrayBuffer P (trim P keyString)) (\<lambda>keyData.
           and_then (importKey P (truncate_key keyData) ''decrypt'') (\<lambda>key.
           and_then (base64ToArrayBuffer P ciphertext) (\<lambda>combined.
           and_then (subtle_decrypt P (slice combined 0 12) key (slice_from combined 12))
             (\<lambda>decrypted. Inr (TextDecoder_decode P decrypted))))) of
        Inl error \<Rightarrow> Inl (Error (''Decryption failed: '' @ error_message error ''Unknown error''))
      | Inr plaintext \<Rightarrow> Inr plaintext)"

section \<open>Content registry: the relational store\<close>

text \<open>
  The tables of \<open>migrations/0001_initial_schema.sql\<close> that the orchestrator reads or
  writes, each a list of rows in insertion order. A column is an option where the code
  may store or read SQL \<open>NULL\<close> there (\<open>string | null\<close> in \<open>types/index.ts\<close>).
  \<open>worker_name\<close> and \<open>kv_namespace_id\<close> are modelled as stored SQL values too, and
  the model's \<open>INSERT\<close> does not enforce their \<open>NOT NULL\<close> constraint: that no active row
  holds \<open>NULL\<close> there is then a property of the code, proved below, not of the schema.
  Statements run against the database are taken to succeed: the model has no failing
  query, insert or update.
\<close>

record cloudflare_connection =
  c_id :: nat
  c_user_id :: nat
  c_account_id :: string
  c_token_encrypted :: string
  c_token_type :: "string option"
  c_scope :: "string option"
  c_connected_at :: "string option"
  c_status :: string

record deployment =
  d_id :: nat
  d_user_id :: nat
  d_zone_id :: string
  d_zone_name :: string
  d_worker_name :: "string option"
  d_kv_namespace_id :: "string option"
  d_route_pattern :: "string option"
  d_route_id :: "string option"
  d_status :: string
  d_deployed_at :: string
  d_last_updated :: string

record variant =
  v_id :: nat
  v_user_id :: nat
  v_deployment_id :: nat
  v_url_path :: string
  v_content :: string
  v_content_hash :: "string option"
  v_status :: string
  v_created_at :: string
  v_updated_at :: string

record api_key =
  k_id :: nat
  k_user_id :: nat
  k_key_hash :: string
  k_deployment_id :: "nat option"
  k_created_at :: string
  k_status :: string

text \<open>
  \<open>deployments_seq\<close> and \<open>api_keys_seq\<close> are the entries of \<open>sqlite_sequence\<close> for the two
  \<open>AUTOINCREMENT\<close> tables the orchestrator inserts into: the largest row id the table has
  ever held.
\<close>

record database =
  cloudflare_connections :: "cloudflare_connection list"
  deployments :: "deployment list"
  deployments_seq :: nat
  variants :: "variant list"
  api_keys :: "api_key list"
  api_keys_seq :: nat

text \<open>
  \<open>meta.last_row_id\<close> of an insert into an \<open>AUTOINCREMENT\<close> table: one more than the
  largest row id the table holds or has ever held, so that the id of a deleted row is
  not used again.
\<close>

definition last_row_id :: "nat \<Rightarrow> nat list \<Rightarrow> nat" where
  "last_row_id seq ids = Suc (max seq (fold max ids 0))"

text \<open>A JavaScript template literal or URL built from a column read \<open>as string\<close>.\<close>

definition as_string :: "string option \<Rightarrow> string" where
  "as_string v = (case v of None \<Rightarrow> ''null'' | Some s \<Rightarrow> s)"

section \<open>Process state and effects\<close>

datatype console_entry = console_error string js_exn | console_log string

text \<open>
  The state one call runs in: the database, the outside world, and what was written to the
  console. \<open>fetched\<close> is a history variable: the requests passed to \<open>fetch\<close> so far, in
  order. No function reads it.
\<close>

record 'w state =
  db :: database
  world :: 'w
  console :: "console_entry list"
  fetched :: "request list"

record Env =
  ENCRYPTION_KEY :: string
  API_BASE_URL :: string

type_synonym ('a, 'w) io = "'w state \<Rightarrow> (js_exn + 'a) \<times> 'w state"

definition bind_io :: "('a, 'w) io \<Rightarrow> ('a \<Rightarrow> ('b, 'w) io) \<Rightarrow> ('b, 'w) io" where
  "bind_io m f = (\<lambda>s. case m s of (Inl e, s') \<Rightarrow> (Inl e, s') | (Inr a, s') \<Rightarrow> f a s')"

definition lift_io :: "js_exn + 'a \<Rightarrow> ('a, 'w) io" where
  "lift_io r = (\<lambda>s. (r, s))"

definition log_error :: "string \<Rightarrow> js_exn \<Rightarrow> 'w state \<Rightarrow> 'w state" where
  "log_error msg error s = s\<lparr>console := console s @ [console_error msg error]\<rparr>"

definition fetch_io :: "('w, 'k) platform \<Rightarrow> request \<Rightarrow> (response, 'w) io" where
  "fetch_io P req = (\<lambda>s. case fetch P req (world s) of
       (r, w') \<Rightarrow> (r, s\<lparr>world := w', fetched := fetched s @ [req]\<rparr>))"

section \<open>Platform API client (\<open>services/cloudflare.service.ts\<close>)\<close>

definition CLOUDFLARE_API_BASE :: string where
  "CLOUDFLARE_API_BASE = ''https://api.cloudflare.com/client/v4''"

fun join :: "string \<Rightarrow> string list \<Rightarrow> string" where
  "join sep [] = []"
| "join sep [x] = x"
| "join sep (x # y # ys) = x @ sep @ join sep (y # ys)"

definition getHeaders :: "string \<Rightarrow> (string \<times> string) list" where
  "getHeaders token =
     [(''Authorization'', ''Bearer '' @ token), (''Content-Type'', ''application/json'')]"

text \<open>
  \<open>const data = await response.json(); if (!data.success) throw new Error(...)\<close>, with the
  prefix of the message of each method.
\<close>

definition envelope :: "string \<Rightarrow> response \<Rightarrow> js_exn + CloudflareApiResponse" where
  "envelope failed response =
     and_then (json response) (\<lambda>data.
       if \<not> success data
       then Inl (Error (failed @ join '', '' (map message (errors data))))
       else Inr data)"

text \<open>Each method sends one request; the request is named so that histories can mention it.\<close>

definition createKVNamespace_request :: "string \<Rightarrow> string \<Rightarrow> string \<Rightarrow> request" where
  "createKVNamespace_request token accountId title =
     \<lparr>req_url = CLOUDFLARE_API_BASE @ ''/accounts/'' @ accountId @ ''/storage/kv/namespaces'',
      req_method = ''POST'',
      req_headers = getHeaders token,
      req_body = JSON_stringify (JObject [(''title'', JString title)])\<rparr>"

definition createKVNamespace ::
  "('w, 'k) platform \<Rightarrow> string \<Rightarrow> string \<Rightarrow> string \<Rightarrow> (cf_result, 'w) io" where
  "createKVNamespace P token accountId title =
     bind_io (fetch_io P (createKVNamespace_request token accountId title))
       (\<lambda>response. lift_io
          (and_then (envelope ''Failed to create KV namespace: '' response)
             (\<lambda>data. Inr (result data))))"

definition uploadWorker_request ::
  "string \<Rightarrow> string \<Rightarrow> string \<Rightarrow> string \<Rightarrow> json list \<Rightarrow> request" where
  "uploadWorker_request token accountId workerName script bindings =
     (let metadata = JObject
            [(''main_module'', JString ''worker.js''),
             (''bindings'', JArray bindings),
             (''compatibility_date'', JString ''2024-02-01'')];
          formData = FormData
            [(''worker.js'',
              \<lparr>blob_content = JString script, blob_type = ''application/javascript+module''\<rparr>,
              Some ''worker.js''),
             (''metadata'',
              \<lparr>blob_content = metadata, blob_type = ''application/json''\<rparr>,
              None)]
      in \<lparr>req_url = CLOUDFLARE_API_BASE @ ''/accounts/'' @ accountId @ ''/workers/scripts/''
                 @ workerName,
           req_method = ''PUT'',
           req_headers = [(''Authorization'', ''Bearer '' @ token)],
           req_body = formData\<rparr>)"

definition uploadWorker ::
  "('w, 'k) platform \<Rightarrow> string \<Rightarrow> string \<Rightarrow> string \<Rightarrow> string \<Rightarrow> json list \<Rightarrow> (unit, 'w) io" where
  "uploadWorker P token accountId workerName script bindings =
     bind_io (fetch_io P (uploadWorker_request token accountId workerName script bindings))
       (\<lambda>response. lift_io
          (and_then (envelope ''Failed to upload worker: '' response) (\<lambda>data. Inr ())))"

definition setWorkerSecret_request ::
  "string \<Rightarrow> string \<Rightarrow> string \<Rightarrow> string \<Rightarrow> string \<Rightarrow> request" where
  "setWorkerSecret_request token accountId workerName secretName secretValue =
     \<lparr>req_url = CLOUDFLARE_API_BASE @ ''/accounts/'' @ accountId @ ''/workers/scripts/''
            @ workerName @ ''/secrets'',
      req_method = ''PUT'',
      req_headers = getHeaders token,
      req_body = JSON_stringify (JObject
        [(''name'', JString secretName),
         (''text'', JString secretValue),
         (''type'', JString ''secret_text'')])\<rparr>"

definition setWorkerSecret ::
  "('w, 'k) platform \<Rightarrow> string \<Rightarrow> string \<Rightarrow> string \<Rightarrow> string \<Rightarrow> string \<Rightarrow> (unit, 'w) io" where
  "setWorkerSecret P token accountId workerName secretName secretValue =
     bind_io (fetch_io P
                (setWorkerSecret_request token accountId workerName secretName secretValue))
       (\<lambda>response. lift_io
          (and_then (envelope ''Failed to set worker secret: '' response) (\<lambda>data. Inr ())))"

definition addWorkerRoute_request :: "string \<Rightarrow> string \<Rightarrow> string \<Rightarrow> string \<Rightarrow> request" where
  "addWorkerRoute_request token zoneId pattern scriptName =
     \<lparr>req_url = CLOUDFLARE_API_BASE @ ''/zones/'' @ zoneId @ ''/workers/routes'',
      req_method = ''POST'',
      req_headers = getHeaders token,
      req_body = JSON_stringify (JObject
        [(''pattern'', JString pattern), (''script'', JString scriptName)])\<rparr>"

definition addWorkerRoute ::
  "('w, 'k) platform \<Rightarrow> string \<Rightarrow> string \<Rightarrow> string \<Rightarrow> string \<Rightarrow> (cf_result, 'w) io" where
  "addWorkerRoute P token zoneId pattern scriptName =
     bind_io (fetch_io P (addWorkerRoute_request token zoneId pattern scriptName))
       (\<lambda>response. lift_io
          (and_then (envelope ''Failed to add worker route: '' response)
             (\<lambda>data. Inr (result data))))"

definition putKVValue_request ::
  "string \<Rightarrow> string \<Rightarrow> string \<Rightarrow> string \<Rightarrow> string \<Rightarrow> request" where
  "putKVValue_request token accountId namespaceId key val =
     \<lparr>req_url = CLOUDFLARE_API_BASE @ ''/accounts/'' @ accountId @ ''/storage/kv/namespaces/''
            @ namespaceId @ ''/values/'' @ key,
      req_method = ''PUT'',
      req_headers = [(''Authorization'', ''Bearer '' @ token), (''Content-Type'', ''text/html'')],
      req_body = TextBody val\<rparr>"

definition putKVValue ::
  "('w, 'k) platform \<Rightarrow> string \<Rightarrow> string \<Rightarrow> string \<Rightarrow> string \<Rightarrow> string \<Rightarrow> (unit, 'w) io" where
  "putKVValue P token accountId namespaceId key val =
     bind_io (fetch_io P (putKVValue_request token accountId namespaceId key val))
       (\<lambda>response. lift_io
          (if \<not> ok response
           then and_then (text_body response)
                  (\<lambda>text. Inl (Error (''Failed to put KV value: '' @ text)))
           else Inr ()))"

definition deleteWorker_request :: "string \<Rightarrow> string \<Rightarrow> string \<Rightarrow> request" where
  "deleteWorker_request token accountId workerName =
     \<lparr>req_url = CLOUDFLARE_API_BASE @ ''/accounts/'' @ accountId @ ''/workers/scripts/''
            @ workerName,
      req_method = ''DELETE'',
      req_headers = getHeaders token,
      req_body = NoBody\<rparr>"

definition deleteWorker ::
  "('w, 'k) platform \<Rightarrow> string \<Rightarrow> string \<Rightarrow> string \<Rightarrow> (unit, 'w) io" where
  "deleteWorker P token accountId workerName =
     bind_io (fetch_io P (deleteWorker_request token accountId workerName))
       (\<lambda>response. lift_io
          (and_then (envelope ''Failed to delete worker: '' response) (\<lambda>data. Inr ())))"

definition deleteWorkerRoute_request :: "string \<Rightarrow> string \<Rightarrow> string \<Rightarrow> request" where
  "deleteWorkerRoute_request token zoneId routeId =
     \<lparr>req_url = CLOUDFLARE_API_BASE @ ''/zones/'' @ zoneId @ ''/workers/routes/'' @ routeId,
      req_method = ''DELETE'',
      req_headers = getHeaders token,
      req_body = NoBody\<rparr>"

definition deleteWorkerRoute ::
  "('w, 'k) platform \<Rightarrow> string \<Rightarrow> string \<Rightarrow> string \<Rightarrow> (unit, 'w) io" where
  "deleteWorkerRoute P token zoneId routeId =
     bind_io (fetch_io P (deleteWorkerRoute_request token zoneId routeId))
       (\<lambda>response. lift_io
          (and_then (envelope ''Failed to delete worker route: '' response) (\<lambda>data. Inr ())))"

definition deleteKVNamespace_request :: "string \<Rightarrow> string \<Rightarrow> string \<Rightarrow> request" where
  "deleteKVNamespace_request token accountId namespaceId =
     \<lparr>req_url = CLOUDFLARE_API_BASE @ ''/accounts/'' @ accountId @ ''/storage/kv/namespaces/''
            @ namespaceId,
      req_method = ''DELETE'',
      req_headers = getHeaders token,
      req_body = NoBody\<rparr>"

definition deleteKVNamespace ::
  "('w, 'k) platform \<Rightarrow> string \<Rightarrow> string \<Rightarrow> string \<Rightarrow> (unit, 'w) io" where
  "deleteKVNamespace P token accountId namespaceId =
     bind_io (fetch_io P (deleteKVNamespace_request token accountId namespaceId))
       (\<lambda>response. lift_io
          (and_then (envelope ''Failed to delete KV namespace: '' response) (\<lambda>data. Inr ())))"

section \<open>Secret issuer (\<open>utils/hashing.ts\<close>)\<close>

definition hex_digit :: "nat \<Rightarrow> char" where
  "hex_digit n = ''0123456789abcdef'' ! (n mod 16)"

text \<open>\<open>b.toString(16).padStart(2, '0')\<close> for a byte \<open>b\<close>.\<close>

definition hex_byte :: "byte \<Rightarrow> string" where
  "hex_byte b = [hex_digit (unat b div 16), hex_digit (unat b mod 16)]"

definition arrayBufferToHex :: "bytes \<Rightarrow> string" where
  "arrayBufferToHex buffer = concat (map hex_byte buffer)"

definition arrayBufferToBase64Url :: "('w, 'k) platform \<Rightarrow> bytes \<Rightarrow> js_exn + string" where
  "arrayBufferToBase64Url P buffer =
     and_then (fromCharCode_spread P buffer) (\<lambda>binary.
     and_then (btoa P binary) (\<lambda>b64.
       Inr (filter (\<lambda>c. c \<noteq> CHR ''='')
              (map (\<lambda>c. if c = CHR ''/'' then CHR ''_'' else c)
                 (map (\<lambda>c. if c = CHR ''+'' then CHR ''-'' else c) b64)))))"

definition generateApiKey :: "('w, 'k) platform \<Rightarrow> (string, 'w) io" where
  "generateApiKey P = (\<lambda>s.
     case getRandomValues P 24 (world s) of
       (randomBytes, w') \<Rightarrow>
         (and_then (arrayBufferToBase64Url P randomBytes)
            (\<lambda>randomString. Inr (''sk_live_'' @ randomString)),
          s\<lparr>world := w'\<rparr>))"

definition hashApiKey :: "('w, 'k) platform \<Rightarrow> string \<Rightarrow> string" where
  "hashApiKey P apiKey = arrayBufferToHex (digest_SHA256 P (TextEncoder_encode P apiKey))"

section \<open>Deployment orchestrator (\<open>DeploymentService\<close>)\<close>

record DeploymentResult =
  r_success :: bool
  r_deploymentId :: "nat option"
  r_workerName :: "string option"
  r_kvNamespaceId :: "string option"
  r_error :: "string option"
  r_variantsUploaded :: "nat option"

definition failure :: "string \<Rightarrow> DeploymentResult" where
  "failure msg =
     \<lparr>r_success = False, r_deploymentId = None, r_workerName = None, r_kvNamespaceId = None,
      r_error = Some msg, r_variantsUploaded = None\<rparr>"

text \<open>Decimal digits of a number, as a template literal prints it.\<close>

fun show_nat :: "nat \<Rightarrow> string" where
  "show_nat n =
     (if n < 10 then [''0123456789'' ! n]
      else show_nat (n div 10) @ [''0123456789'' ! (n mod 10)])"

declare show_nat.simps [simp del]

subsection \<open>\<open>healthCheck\<close>\<close>

definition healthCheck_request :: "string \<Rightarrow> request" where
  "healthCheck_request zoneName =
     \<lparr>req_url = ''https://'' @ zoneName @ ''/'',
      req_method = ''GET'',
      req_headers = [(''User-Agent'', ''GPTBot/1.0'')],
      req_body = NoBody\<rparr>"

definition healthCheck :: "('w, 'k) platform \<Rightarrow> string \<Rightarrow> 'w state \<Rightarrow> bool \<times> 'w state" where
  "healthCheck P zoneName s =
     (case fetch_io P (healthCheck_request zoneName) s of
        (Inr response, s') \<Rightarrow> (headers_get response ''x-served-by'' = Some ''AXP'', s')
      | (Inl error, s') \<Rightarrow> (False, log_error ''Health check failed:'' error s'))"

subsection \<open>\<open>uploadExistingVariants\<close>\<close>

text \<open>
  The rows the query selects: \<open>user_id = ? AND status = 'active'\<close>, and
  \<open>AND deployment_id = ?\<close> when the optional \<open>deploymentId\<close> is given and truthy.
\<close>

definition select_variants :: "database \<Rightarrow> nat \<Rightarrow> nat option \<Rightarrow> variant list" where
  "select_variants d userId deploymentId =
     filter (\<lambda>v. v_user_id v = userId \<and> v_status v = ''active'' \<and>
                 (case deploymentId of
                    None \<Rightarrow> True
                  | Some i \<Rightarrow> if i \<noteq> 0 then v_deployment_id v = i else True))
       (variants d)"

text \<open>The \<open>for\<close> loop, with its running \<open>count\<close>.\<close>

fun upload_loop ::
  "('w, 'k) platform \<Rightarrow> string \<Rightarrow> string \<Rightarrow> string \<Rightarrow> variant list \<Rightarrow> nat \<Rightarrow> 'w state
     \<Rightarrow> nat \<times> 'w state" where
  "upload_loop P token accountId kvNamespaceId [] count s = (count, s)"
| "upload_loop P token accountId kvNamespaceId (variant # rest) count s =
     (case putKVValue P token accountId kvNamespaceId (v_url_path variant) (v_content variant) s of
        (Inr u, s') \<Rightarrow> upload_loop P token accountId kvNamespaceId rest (count + 1) s'
      | (Inl error, s') \<Rightarrow>
          upload_loop P token accountId kvNamespaceId rest count
            (log_error (''Failed to upload variant '' @ v_url_path variant @ '':'') error s'))"

definition uploadExistingVariants ::
  "('w, 'k) platform \<Rightarrow> string \<Rightarrow> string \<Rightarrow> string \<Rightarrow> nat \<Rightarrow> nat option \<Rightarrow> (nat, 'w) io" where
  "uploadExistingVariants P token accountId kvNamespaceId userId deploymentId = (\<lambda>s.
     case upload_loop P token accountId kvNamespaceId
            (select_variants (db s) userId deploymentId) 0 s of
       (count, s') \<Rightarrow> (Inr count, s'))"

subsection \<open>\<open>deploy\<close>\<close>

text \<open>What the remote steps of \<open>deploy\<close> leave in scope for the steps that persist.\<close>

record provisioned =
  p_workerName :: string
  p_kvNamespaceId :: string
  p_keyHash :: string
  p_routePattern :: string
  p_route :: cf_result
  p_variantsUploaded :: nat

text \<open>
  Source comments 2 to 9 of \<open>deploy\<close> (lines 473 to 523): decrypt the token, create the
  key-value namespace, upload the worker, generate the key and set the three secrets, add
  the route, upload the existing variants. Any exception ends the sequence.
\<close>

definition deploy_remote ::
  "('w, 'k) platform \<Rightarrow> Env \<Rightarrow> nat \<Rightarrow> string \<Rightarrow> string \<Rightarrow> string \<Rightarrow> cloudflare_connection
     \<Rightarrow> (provisioned, 'w) io" where
  "deploy_remote P env userId siteId zoneId zoneName connection =
     (let accountId = c_account_id connection;
          tokenEncrypted = c_token_encrypted connection
      in
      bind_io (lift_io (decryptToken P tokenEncrypted (ENCRYPTION_KEY env))) (\<lambda>accessToken.
      bind_io (createKVNamespace P accessToken accountId (''axp-variants-'' @ siteId))
        (\<lambda>kvNamespace.
      let kvNamespaceId = result_id kvNamespace;
          workerName = ''axp-'' @ siteId;
          workerCode = getClientWorkerCode P;
          bindings = [JObject [(''type'', JString ''kv_namespace''),
                               (''name'', JString ''VARIANTS''),
                               (''namespace_id'', JString kvNamespaceId)]]
      in
      bind_io (uploadWorker P accessToken accountId workerName workerCode bindings) (\<lambda>u1.
      bind_io (generateApiKey P) (\<lambda>clientApiKey.
      let keyHash = hashApiKey P clientApiKey in
      bind_io (setWorkerSecret P accessToken accountId workerName ''CLIENT_API_KEY'' clientApiKey)
        (\<lambda>u2.
      bind_io (setWorkerSecret P accessToken accountId workerName ''SITE_ID'' siteId) (\<lambda>u3.
      bind_io (setWorkerSecret P accessToken accountId workerName ''API_ENDPOINT''
                 (API_BASE_URL env)) (\<lambda>u4.
      let routePattern = zoneName @ ''/*'' in
      bind_io (addWorkerRoute P accessToken zoneId routePattern workerName) (\<lambda>route.
      bind_io (uploadExistingVariants P accessToken accountId kvNamespaceId userId None)
        (\<lambda>variantsUploaded.
      lift_io (Inr
        \<lparr>p_workerName = workerName, p_kvNamespaceId = kvNamespaceId, p_keyHash = keyHash,
         p_routePattern = routePattern, p_route = route,
         p_variantsUploaded = variantsUploaded\<rparr>)))))))))))"

text \<open>
  Source comments 10 to 12 (lines 525 to 554): insert the deployment row, insert the key
  hash under the new row's id, run the health check, log, and build the result.
\<close>

definition deploy_persist ::
  "('w, 'k) platform \<Rightarrow> nat \<Rightarrow> string \<Rightarrow> string \<Rightarrow> provisioned \<Rightarrow> 'w state
     \<Rightarrow> DeploymentResult \<times> 'w state" where
  "deploy_persist P userId zoneId zoneName p s =
     (let now = datetime_now P (world s);
          deploymentId = last_row_id (deployments_seq (db s)) (map d_id (deployments (db s)));
          s1 = s\<lparr>db := (db s)\<lparr>deployments_seq := deploymentId,
                 deployments := deployments (db s) @
                 [\<lparr>d_id = deploymentId, d_user_id = userId, d_zone_id = zoneId,
                   d_zone_name = zoneName, d_worker_name = Some (p_workerName p),
                   d_kv_namespace_id = Some (p_kvNamespaceId p),
                   d_route_pattern = Some (p_routePattern p),
                   d_route_id = Some (result_id (p_route p)),
                   d_status = ''active'', d_deployed_at = now, d_last_updated = now\<rparr>]\<rparr>\<rparr>;
          keyId = last_row_id (api_keys_seq (db s1)) (map k_id (api_keys (db s1)));
          s2 = s1\<lparr>db := (db s1)\<lparr>api_keys_seq := keyId,
                 api_keys := api_keys (db s1) @
                 [\<lparr>k_id = keyId, k_user_id = userId,
                   k_key_hash = p_keyHash p, k_deployment_id = Some deploymentId,
                   k_created_at = now, k_status = ''active''\<rparr>]\<rparr>\<rparr>
      in case healthCheck P zoneName s2 of
           (isHealthy, s3) \<Rightarrow>
             (\<lparr>r_success = True, r_deploymentId = Some deploymentId,
               r_workerName = Some (p_workerName p),
               r_kvNamespaceId = Some (p_kvNamespaceId p), r_error = None,
               r_variantsUploaded = Some (p_variantsUploaded p)\<rparr>,
              s3\<lparr>console := console s3 @
                 [console_log (''Deployment '' @ show_nat deploymentId
                    @ '' completed. Health check: ''
                    @ (if isHealthy then ''PASS'' else ''FAIL''))]\<rparr>))"

definition active_connection :: "database \<Rightarrow> nat \<Rightarrow> cloudflare_connection option" where
  "active_connection d userId =
     find (\<lambda>c. c_user_id c = userId \<and> c_status c = ''active'') (cloudflare_connections d)"

definition deploy ::
  "('w, 'k) platform \<Rightarrow> Env \<Rightarrow> nat \<Rightarrow> string \<Rightarrow> string \<Rightarrow> string \<Rightarrow> 'w state
     \<Rightarrow> DeploymentResult \<times> 'w state" where
  "deploy P env userId siteId zoneId zoneName s =
     (case active_connection (db s) userId of
        None \<Rightarrow> (failure ''No active Cloudflare connection found'', s)
      | Some connection \<Rightarrow>
          (case deploy_remote P env userId siteId zoneId zoneName connection s of
             (Inr p, s') \<Rightarrow> deploy_persist P userId zoneId zoneName p s'
           | (Inl error, s') \<Rightarrow>
               (failure (error_message error ''Unknown deployment error''),
                log_error ''Deployment failed:'' error s')))"

subsection \<open>\<open>updateVariants\<close> and \<open>deleteDeployment\<close>\<close>

text \<open>
  \<open>SELECT d.*, c.account_id, c.token_encrypted FROM deployments d JOIN
  cloudflare_connections c ON d.user_id = c.user_id WHERE d.id = ? AND d.user_id = ?\<close>,
  with \<open>AND d.status = ?\<close> when a status is given; \<open>.first()\<close> takes the first joined row.
\<close>

definition deployment_info ::
  "database \<Rightarrow> nat \<Rightarrow> nat \<Rightarrow> string option \<Rightarrow> (deployment \<times> cloudflare_connection) option" where
  "deployment_info d deploymentId userId status =
     (case find (\<lambda>r. d_id r = deploymentId \<and> d_user_id r = userId \<and>
                      (case status of None \<Rightarrow> True | Some st \<Rightarrow> d_status r = st))
             (deployments d) of
        None \<Rightarrow> None
      | Some r \<Rightarrow>
          (case find (\<lambda>c. c_user_id c = d_user_id r) (cloudflare_connections d) of
             None \<Rightarrow> None
           | Some c \<Rightarrow> Some (r, c)))"

text \<open>\<open>UPDATE deployments SET last_updated = datetime('now') WHERE id = ?\<close>\<close>

definition touch_deployment :: "nat \<Rightarrow> string \<Rightarrow> database \<Rightarrow> database" where
  "touch_deployment deploymentId now d =
     d\<lparr>deployments :=
         map (\<lambda>r. if d_id r = deploymentId then r\<lparr>d_last_updated := now\<rparr> else r)
           (deployments d)\<rparr>"

text \<open>\<open>UPDATE deployments SET status = ?, last_updated = datetime('now') WHERE id = ?\<close>\<close>

definition set_deployment_status :: "nat \<Rightarrow> string \<Rightarrow> string \<Rightarrow> database \<Rightarrow> database" where
  "set_deployment_status deploymentId status now d =
     d\<lparr>deployments :=
         map (\<lambda>r. if d_id r = deploymentId
                  then r\<lparr>d_status := status, d_last_updated := now\<rparr> else r)
           (deployments d)\<rparr>"

text \<open>\<open>UPDATE api_keys SET status = ? WHERE deployment_id = ?\<close>\<close>

definition set_api_keys_status :: "nat \<Rightarrow> string \<Rightarrow> database \<Rightarrow> database" where
  "set_api_keys_status deploymentId status d =
     d\<lparr>api_keys :=
         map (\<lambda>k. if k_deployment_id k = Some deploymentId then k\<lparr>k_status := status\<rparr> else k)
           (api_keys d)\<rparr>"

text \<open>\<open>try { ... } catch (error) { console.error(msg, error); throw error; }\<close>\<close>

definition log_and_rethrow :: "string \<Rightarrow> ('a, 'w) io \<Rightarrow> ('a, 'w) io" where
  "log_and_rethrow msg m = (\<lambda>s. case m s of
       (Inl error, s') \<Rightarrow> (Inl error, log_error msg error s')
     | (Inr a, s') \<Rightarrow> (Inr a, s'))"

text \<open>\<open>try { ... } catch (error) { console.error(msg, error); }\<close>\<close>

definition best_effort :: "string \<Rightarrow> (unit, 'w) io \<Rightarrow> (unit, 'w) io" where
  "best_effort msg m = (\<lambda>s. case m s of
       (Inl error, s') \<Rightarrow> (Inr (), log_error msg error s')
     | (Inr u, s') \<Rightarrow> (Inr (), s'))"

definition updateVariants ::
  "('w, 'k) platform \<Rightarrow> Env \<Rightarrow> nat \<Rightarrow> nat \<Rightarrow> (nat, 'w) io" where
  "updateVariants P env deploymentId userId =
     log_and_rethrow ''Update variants failed:'' (\<lambda>s.
       case deployment_info (db s) deploymentId userId (Some ''active'') of
         None \<Rightarrow> (Inl (Error ''Deployment not found''), s)
       | Some (deployment, connection) \<Rightarrow>
           (let accountId = c_account_id connection;
                kvNamespaceId = as_string (d_kv_namespace_id deployment);
                tokenEncrypted = c_token_encrypted connection
            in
            bind_io (lift_io (decryptToken P tokenEncrypted (ENCRYPTION_KEY env)))
              (\<lambda>accessToken.
            bind_io (uploadExistingVariants P accessToken accountId kvNamespaceId userId
                       (Some deploymentId)) (\<lambda>count s'.
            (Inr count,
             s'\<lparr>db := touch_deployment deploymentId (datetime_now P (world s')) (db s')\<rparr>)))) s)"

definition deleteDeployment ::
  "('w, 'k) platform \<Rightarrow> Env \<Rightarrow> nat \<Rightarrow> nat \<Rightarrow> (unit, 'w) io" where
  "deleteDeployment P env deploymentId userId =
     log_and_rethrow ''Delete deployment failed:'' (\<lambda>s.
       case deployment_info (db s) deploymentId userId None of
         None \<Rightarrow> (Inl (Error ''Deployment not found''), s)
       | Some (deployment, connection) \<Rightarrow>
           (let accountId = c_account_id connection;
                workerName = as_string (d_worker_name deployment);
                kvNamespaceId = as_string (d_kv_namespace_id deployment);
                zoneId = d_zone_id deployment;
                routeId = d_route_id deployment;
                tokenEncrypted = c_token_encrypted connection
            in
            bind_io (lift_io (decryptToken P tokenEncrypted (ENCRYPTION_KEY env)))
              (\<lambda>accessToken.
            bind_io (best_effort ''Failed to delete worker route:''
                       (case routeId of
                          None \<Rightarrow> lift_io (Inr ())
                        | Some rid \<Rightarrow>
                            if rid \<noteq> [] then deleteWorkerRoute P accessToken zoneId rid
                            else lift_io (Inr ()))) (\<lambda>u1.
            bind_io (best_effort ''Failed to delete worker:''
                       (deleteWorker P accessToken accountId workerName)) (\<lambda>u2.
            bind_io (best_effort ''Failed to delete KV namespace:''
                       (deleteKVNamespace P accessToken accountId kvNamespaceId)) (\<lambda>u3 s'.
            (Inr (),
             s'\<lparr>db := set_api_keys_status deploymentId ''inactive''
                        (set_deployment_status deploymentId ''deleted''
                           (datetime_now P (world s')) (db s'))\<rparr>)))))) s)"

section \<open>Notions used to state the properties\<close>

text \<open>
  The outcomes of the remote writes of one run of the upload loop, in order: a history
  function that follows the loop's own threading of the state, so that the number of
  writes that failed in a run can be named.
\<close>

fun put_results ::
  "('w, 'k) platform \<Rightarrow> string \<Rightarrow> string \<Rightarrow> string \<Rightarrow> variant list \<Rightarrow> 'w state
     \<Rightarrow> (js_exn + unit) list" where
  "put_results P token accountId kvNamespaceId [] s = []"
| "put_results P token accountId kvNamespaceId (variant # rest) s =
     (case putKVValue P token accountId kvNamespaceId (v_url_path variant) (v_content variant) s of
        (Inr u, s') \<Rightarrow> Inr u # put_results P token accountId kvNamespaceId rest s'
      | (Inl error, s') \<Rightarrow>
          Inl error # put_results P token accountId kvNamespaceId rest
            (log_error (''Failed to upload variant '' @ v_url_path variant @ '':'') error s'))"

text \<open>
  What the vault needs of the runtime. \<open>atob\<close> undoes \<open>btoa\<close>; AES-GCM decryption under
  a 256-bit key and a 12-byte nonce undoes encryption under the same key and nonce, the
  ciphertext being the data and a tag of at most 16 bytes; \<open>getRandomValues\<close> fills the
  array it is given.
\<close>

definition base64_roundtrip :: "('w, 'k) platform \<Rightarrow> bool" where
  "base64_roundtrip P \<longleftrightarrow>
     (\<forall>binary. \<exists>b64. btoa P binary = Inr b64 \<and> atob P b64 = Inr binary)"

definition aes_gcm_roundtrip :: "('w, 'k) platform \<Rightarrow> bool" where
  "aes_gcm_roundtrip P \<longleftrightarrow>
     (\<forall>keyData iv data. length keyData = 32 \<and> length iv = 12 \<longrightarrow>
        (\<exists>ek dk ct. importKey P keyData ''encrypt'' = Inr ek \<and>
                    importKey P keyData ''decrypt'' = Inr dk \<and>
                    subtle_encrypt P iv ek data = Inr ct \<and>
                    length ct \<le> length data + 16 \<and>
                    subtle_decrypt P iv dk ct = Inr data))"

definition random_fills :: "('w, 'k) platform \<Rightarrow> bool" where
  "random_fills P \<longleftrightarrow> (\<forall>n w. length (fst (getRandomValues P n w)) = n)"

text \<open>Every active deployment row names its worker and its key-value namespace.\<close>

definition active_rows_complete :: "database \<Rightarrow> bool" where
  "active_rows_complete d \<longleftrightarrow>
     list_all (\<lambda>r. d_status r = ''active'' \<longrightarrow>
                    d_worker_name r \<noteq> None \<and> d_kv_namespace_id r \<noteq> None)
       (deployments d)"

text \<open>
  The states the system can be in: the deployments table starts empty; \<open>deploy\<close>,
  \<open>updateVariants\<close> and \<open>deleteDeployment\<close> are the only writers of that table; every
  other request handler (connecting an account, editing variants, logging analytics) and
  the outside world may change anything else.
\<close>

inductive reachable :: "('w, 'k) platform \<Rightarrow> Env \<Rightarrow> 'w state \<Rightarrow> bool"
  for P :: "('w, 'k) platform" and env :: Env where
  initial: "deployments (db s) = [] \<Longrightarrow> reachable P env s"
| provision:
    "reachable P env s \<Longrightarrow> reachable P env (snd (deploy P env userId siteId zoneId zoneName s))"
| resync:
    "reachable P env s \<Longrightarrow> reachable P env (snd (updateVariants P env deploymentId userId s))"
| teardown:
    "reachable P env s \<Longrightarrow> reachable P env (snd (deleteDeployment P env deploymentId userId s))"
| elsewhere:
    "reachable P env s \<Longrightarrow> deployments (db s') = deployments (db s) \<Longrightarrow> reachable P env s'"

section \<open>A test double of the runtime\<close>

text \<open>
  For running the model on concrete inputs: the outside world is a script of the
  responses that successive \<open>fetch\<close> calls receive (an exhausted script is a network
  failure); the random source is constant; base64 is replaced by the identity, AES-GCM
  by an additive cipher with a one-byte tag, SHA-256 by a two-byte checksum, and the
  engine's argument limit is scaled down to 100. A text is held as the bytes of its UTF-8
  encoding: the encoder returns them, and the decoder, as \<open>TextDecoder\<close> does by
  default, drops a leading byte-order mark.
\<close>

definition strip_bom :: "bytes \<Rightarrow> bytes" where
  "strip_bom bs = (if take 3 bs = [0xEF, 0xBB, 0xBF] then drop 3 bs else bs)"

definition demo_trim :: "string \<Rightarrow> string" where
  "demo_trim str =
     (let ws = (\<lambda>c. c \<in> set [CHR '' '', CHR 0x09, CHR 0x0A, CHR 0x0D])
      in rev (dropWhile ws (rev (dropWhile ws str))))"

definition first_byte :: "bytes \<Rightarrow> byte" where
  "first_byte bs = (case bs of [] \<Rightarrow> 0 | b # rest \<Rightarrow> b)"

definition demo_encrypt :: "bytes \<Rightarrow> bytes \<Rightarrow> bytes \<Rightarrow> js_exn + bytes" where
  "demo_encrypt iv key data =
     Inr (map (\<lambda>b. b + first_byte key) data @ [sum_list data + first_byte iv])"

definition demo_decrypt :: "bytes \<Rightarrow> bytes \<Rightarrow> bytes \<Rightarrow> js_exn + bytes" where
  "demo_decrypt iv key ct =
     (case rev ct of
        [] \<Rightarrow> Inl (Error ''OperationError'')
      | tag # rbody \<Rightarrow>
          (let data = map (\<lambda>b. b - first_byte key) (rev rbody)
           in if sum_list data + first_byte iv = tag then Inr data
              else Inl (Error ''OperationError'')))"

definition demo_platform :: "((js_exn + response) list, bytes) platform" where
  "demo_platform =
     \<lparr>fetch = (\<lambda>req w. case w of [] \<Rightarrow> (Inl (Error ''fetch failed''), []) | r # rs \<Rightarrow> (r, rs)),
      getRandomValues = (\<lambda>n w. (replicate n 7, w)),
      datetime_now = (\<lambda>w. ''2024-02-01 00:00:00''),
      atob = Inr,
      btoa = Inr,
      trim = demo_trim,
      TextEncoder_encode = charCodes,
      TextDecoder_decode = (\<lambda>bs. fromCharCode (strip_bom bs)),
      importKey = (\<lambda>keyData usage.
         if length keyData = 32 then Inr keyData else Inl (Error ''DataError'')),
      subtle_encrypt = demo_encrypt,
      subtle_decrypt = demo_decrypt,
      digest_SHA256 = (\<lambda>data. [sum_list data, of_nat (length data)]),
      spread_error = (\<lambda>n.
         if 100 < n then Some (Error ''Maximum call stack size exceeded'') else None),
      getClientWorkerCode = ''export default {}''\<rparr>"

definition accepted :: "string \<Rightarrow> js_exn + response" where
  "accepted i =
     Inr \<lparr>ok = True,
          json = Inr \<lparr>success = True, errors = [], messages = [],
                      result = \<lparr>result_id = i\<rparr>\<rparr>,
          text_body = Inr [],
          headers_get = (\<lambda>h. if h = ''x-served-by'' then Some ''AXP'' else None)\<rparr>"

definition rejected :: "string \<Rightarrow> js_exn + response" where
  "rejected msg =
     Inr \<lparr>ok = False,
          json = Inr \<lparr>success = False, errors = [\<lparr>code = 10000, message = msg\<rparr>],
                      messages = [], result = \<lparr>result_id = []\<rparr>\<rparr>,
          text_body = Inr msg,
          headers_get = (\<lambda>h. None)\<rparr>"

definition demo_env :: Env where
  "demo_env = \<lparr>ENCRYPTION_KEY = ''0123456789abcdef0123456789abcdef'',
               API_BASE_URL = ''https://api.example.com''\<rparr>"

text \<open>
  One customer (user 1) with an active connection whose stored credential is the vault's
  encryption of \<open>cf-token\<close>, and three active variants.
\<close>

definition demo_token_encrypted :: string where
  "demo_token_encrypted =
     fromCharCode [7, 7, 7, 7, 7, 7, 7, 7, 7, 7, 7, 7, 147, 150, 93, 164, 159, 155, 149, 158, 30]"

definition demo_connection :: cloudflare_connection where
  "demo_connection =
     \<lparr>c_id = 1, c_user_id = 1, c_account_id = ''acc1'',
      c_token_encrypted = demo_token_encrypted, c_token_type = Some ''api_token'',
      c_scope = None, c_connected_at = Some ''2024-01-01 00:00:00'', c_status = ''active''\<rparr>"

definition demo_variant :: "nat \<Rightarrow> string \<Rightarrow> variant" where
  "demo_variant i path =
     \<lparr>v_id = i, v_user_id = 1, v_deployment_id = 1, v_url_path = path,
      v_content = ''<html></html>'', v_content_hash = None, v_status = ''active'',
      v_created_at = ''2024-01-01 00:00:00'', v_updated_at = ''2024-01-01 00:00:00''\<rparr>"

definition demo_db :: database where
  "demo_db =
     \<lparr>cloudflare_connections = [demo_connection],
      deployments = [],
      deployments_seq = 0,
      variants = [demo_variant 1 ''/a'', demo_variant 2 ''/b'', demo_variant 3 ''/c''],
      api_keys = [],
      api_keys_seq = 0\<rparr>"

definition demo_state :: "database \<Rightarrow> (js_exn + response) list \<Rightarrow> (js_exn + response) list state" where
  "demo_state d script = \<lparr>db = d, world = script, console = [], fetched = []\<rparr>"

text \<open>
  A provisioning run in which every remote call is accepted, except the write of the
  second variant.
\<close>

definition demo_script :: "(js_exn + response) list" where
  "demo_script =
     [accepted ''kv1'', accepted [], accepted [], accepted [], accepted [], accepted ''route1'',
      accepted [], rejected ''quota'', accepted [], accepted []]"

definition demo_deployed :: "(js_exn + response) list state" where
  "demo_deployed =
     snd (deploy demo_platform demo_env 1 ''site'' ''zone1'' ''example.com''
            (demo_state demo_db demo_script))"

text \<open>A provisioning run in which the remote platform rejects the route.\<close>

definition demo_script_route_rejected :: "(js_exn + response) list" where
  "demo_script_route_rejected =
     [accepted ''kv1'', accepted [], accepted [], accepted [], accepted [],
      rejected ''route conflict'']"

text \<open>The deployment row that the run \<open>demo_script\<close> inserts.\<close>

definition demo_row :: deployment where
  "demo_row =
     \<lparr>d_id = 1, d_user_id = 1, d_zone_id = ''zone1'', d_zone_name = ''example.com'',
      d_worker_name = Some ''axp-site'', d_kv_namespace_id = Some ''kv1'',
      d_route_pattern = Some ''example.com/*'', d_route_id = Some ''route1'',
      d_status = ''active'', d_deployed_at = ''2024-02-01 00:00:00'',
      d_last_updated = ''2024-02-01 00:00:00''\<rparr>"

text \<open>The deployed state, with a remote platform that rejects the second of three writes.\<close>

definition demo_resync_state :: "(js_exn + response) list state" where
  "demo_resync_state = demo_deployed\<lparr>world := [accepted [], rejected ''quota'', accepted []]\<rparr>"

section \<open>The vault\<close>

lemma byte_char: "of_char (char_of (unat b)) = (b :: 8 word)"
proof -
  have lt: "unat b < 256" using unsigned_less [of b] by simp
  have "(of_char (char_of (unat b)) :: 8 word) = of_nat (of_char (char_of (unat b)))"
    by (simp only: of_nat_of_char)
  also have "\<dots> = of_nat (unat b mod 256)" by (simp only: of_char_of)
  also have "\<dots> = of_nat (unat b)" using lt by simp
  also have "\<dots> = b" by simp
  finally show ?thesis .
qed

lemma charCodes_fromCharCode: "charCodes (fromCharCode bs) = bs"
  by (induction bs) (simp_all add: charCodes_def fromCharCode_def byte_char)

lemma truncate_key_long: "32 < length keyData \<Longrightarrow> truncate_key keyData = take 32 keyData"
  by (simp add: truncate_key_def slice_def)

lemma truncate_key_exact: "length keyData = 32 \<Longrightarrow> truncate_key keyData = keyData"
  by (simp add: truncate_key_def)

lemma encryptToken_with_key:
  assumes "base64ToArrayBuffer P (trim P keyString) = Inr keyData"
  shows "encryptToken P plaintext keyString w =
     (case importKey P (truncate_key keyData) ''encrypt'' of
        Inl error \<Rightarrow>
          (Inl (Error (''Encryption failed: '' @ error_message error ''Unknown error'')), w)
      | Inr k \<Rightarrow>
          (case and_then
                  (subtle_encrypt P (fst (getRandomValues P 12 w)) k
                     (TextEncoder_encode P plaintext))
                  (\<lambda>ct. arrayBufferToBase64 P (fst (getRandomValues P 12 w) @ ct)) of
             Inl error \<Rightarrow>
               (Inl (Error (''Encryption failed: '' @ error_message error ''Unknown error'')),
                snd (getRandomValues P 12 w))
           | Inr blob \<Rightarrow> (Inr blob, snd (getRandomValues P 12 w))))"
  using assms
  by (simp add: encryptToken_def and_then_def case_prod_beta Let_def
      split: sum.splits)

lemma decryptToken_with_key:
  assumes "base64ToArrayBuffer P (trim P keyString) = Inr keyData"
  shows "decryptToken P ciphertext keyString =
     (case and_then (importKey P (truncate_key keyData) ''decrypt'') (\<lambda>k.
           and_then (base64ToArrayBuffer P ciphertext) (\<lambda>combined.
           and_then (subtle_decrypt P (take 12 combined) k (drop 12 combined))
             (\<lambda>decrypted. Inr (TextDecoder_decode P decrypted)))) of
        Inl error \<Rightarrow> Inl (Error (''Decryption failed: '' @ error_message error ''Unknown error''))
      | Inr plaintext \<Rightarrow> Inr plaintext)"
  using assms
  by (simp add: decryptToken_def and_then_def slice_def slice_from_def)

lemma demo_base64: "base64_roundtrip demo_platform"
  by (simp add: base64_roundtrip_def demo_platform_def)

lemma demo_random: "random_fills demo_platform"
  by (simp add: random_fills_def demo_platform_def)

lemma demo_aes: "aes_gcm_roundtrip demo_platform"
  by (simp add: aes_gcm_roundtrip_def demo_platform_def demo_encrypt_def demo_decrypt_def
        comp_def)

lemma demo_key_decoded:
  "base64ToArrayBuffer demo_platform (trim demo_platform (ENCRYPTION_KEY demo_env)) =
     Inr (charCodes ''0123456789abcdef0123456789abcdef'')"
  by (simp add: base64ToArrayBuffer_def demo_platform_def demo_env_def demo_trim_def
        and_then_def)

lemma demo_long_key_decoded:
  "base64ToArrayBuffer demo_platform
     (trim demo_platform ''0123456789abcdef0123456789abcdefXY'') =
     Inr (charCodes ''0123456789abcdef0123456789abcdefXY'')"
  by (simp add: base64ToArrayBuffer_def demo_platform_def demo_trim_def and_then_def)

text \<open>
  C9. When the key string decodes to more than 32 bytes, neither function rejects it for
  its length: what \<open>encryptToken\<close> and \<open>decryptToken\<close> hand to \<open>importKey\<close> is the first 32
  bytes of the decoded key, and each then runs, and succeeds or fails, exactly as the
  runtime does on those 32 bytes. So the over-length key behaves, in both functions and
  for every plaintext, ciphertext and state of the world, as any key string that decodes
  to those first 32 bytes.
\<close>

theorem overlong_key_is_truncated:
  assumes long: "base64ToArrayBuffer P (trim P longKey) = Inr keyData"
      and over: "32 < length keyData"
  shows
    "encryptToken P plaintext longKey w =
       (case importKey P (take 32 keyData) ''encrypt'' of
          Inl error \<Rightarrow>
            (Inl (Error (''Encryption failed: '' @ error_message error ''Unknown error'')), w)
        | Inr k \<Rightarrow>
            (case and_then
                    (subtle_encrypt P (fst (getRandomValues P 12 w)) k
                       (TextEncoder_encode P plaintext))
                    (\<lambda>ct. arrayBufferToBase64 P (fst (getRandomValues P 12 w) @ ct)) of
               Inl error \<Rightarrow>
                 (Inl (Error (''Encryption failed: '' @ error_message error ''Unknown error'')),
                  snd (getRandomValues P 12 w))
             | Inr blob \<Rightarrow> (Inr blob, snd (getRandomValues P 12 w)))) \<and>
     decryptToken P ciphertext longKey =
       (case and_then (importKey P (take 32 keyData) ''decrypt'') (\<lambda>k.
             and_then (base64ToArrayBuffer P ciphertext) (\<lambda>combined.
             and_then (subtle_decrypt P (take 12 combined) k (drop 12 combined))
               (\<lambda>decrypted. Inr (TextDecoder_decode P decrypted)))) of
          Inl error \<Rightarrow>
            Inl (Error (''Decryption failed: '' @ error_message error ''Unknown error''))
        | Inr recovered \<Rightarrow> Inr recovered) \<and>
     (\<forall>key. base64ToArrayBuffer P (trim P key) = Inr (take 32 keyData) \<longrightarrow>
        encryptToken P plaintext longKey w = encryptToken P plaintext key w \<and>
        decryptToken P ciphertext longKey = decryptToken P ciphertext key)"
proof -
  have t: "truncate_key keyData = take 32 keyData"
    using over by (rule truncate_key_long)
  have t': "truncate_key (take 32 keyData) = take 32 keyData"
    using over by (simp add: truncate_key_exact)
  note e = encryptToken_with_key [OF long, of plaintext w, unfolded t]
  note d = decryptToken_with_key [OF long, of ciphertext, unfolded t]
  have "\<forall>key. base64ToArrayBuffer P (trim P key) = Inr (take 32 keyData) \<longrightarrow>
        encryptToken P plaintext longKey w = encryptToken P plaintext key w \<and>
        decryptToken P ciphertext longKey = decryptToken P ciphertext key"
  proof (intro allI impI)
    fix key
    assume short: "base64ToArrayBuffer P (trim P key) = Inr (take 32 keyData)"
    note e' = encryptToken_with_key [OF short, of plaintext w, unfolded t']
    note d' = decryptToken_with_key [OF short, of ciphertext, unfolded t']
    show "encryptToken P plaintext longKey w = encryptToken P plaintext key w \<and>
        decryptToken P ciphertext longKey = decryptToken P ciphertext key"
      by (simp only: e e' d d')
  qed
  with e d show ?thesis by (intro conjI)
qed

theorem overlong_key_is_truncated_witness:
  "base64ToArrayBuffer demo_platform
     (trim demo_platform ''0123456789abcdef0123456789abcdefXY'') =
     Inr (charCodes ''0123456789abcdef0123456789abcdefXY'') \<and>
   32 < length (charCodes ''0123456789abcdef0123456789abcdefXY'') \<and>
   importKey demo_platform (charCodes ''0123456789abcdef0123456789abcdefXY'') ''encrypt'' =
     Inl (Error ''DataError'') \<and>
   importKey demo_platform (take 32 (charCodes ''0123456789abcdef0123456789abcdefXY''))
     ''encrypt'' = Inr (charCodes ''0123456789abcdef0123456789abcdef'') \<and>
   fst (encryptToken demo_platform ''cf-token'' ''0123456789abcdef0123456789abcdefXY'' []) =
     Inr demo_token_encrypted \<and>
   decryptToken demo_platform demo_token_encrypted ''0123456789abcdef0123456789abcdefXY'' =
     Inr ''cf-token'' \<and>
   base64ToArrayBuffer demo_platform
     (trim demo_platform ''0123456789abcdef0123456789abcdef'') =
     Inr (take 32 (charCodes ''0123456789abcdef0123456789abcdefXY'')) \<and>
   encryptToken demo_platform ''cf-token'' ''0123456789abcdef0123456789abcdefXY'' [] =
     encryptToken demo_platform ''cf-token'' ''0123456789abcdef0123456789abcdef'' [] \<and>
   decryptToken demo_platform demo_token_encrypted ''0123456789abcdef0123456789abcdefXY'' =
     decryptToken demo_platform demo_token_encrypted ''0123456789abcdef0123456789abcdef''"
proof -
  let ?long = "''0123456789abcdef0123456789abcdefXY''"
  let ?short = "''0123456789abcdef0123456789abcdef''"
  have h1: "base64ToArrayBuffer demo_platform (trim demo_platform ?long) = Inr (charCodes ?long)"
    by (rule demo_long_key_decoded)
  have h2: "32 < length (charCodes ?long)"
    by (simp add: charCodes_def)
  have h3: "base64ToArrayBuffer demo_platform (trim demo_platform ?short) =
      Inr (take 32 (charCodes ?long))"
    using demo_key_decoded by (simp add: demo_env_def charCodes_def)
  have r1: "importKey demo_platform (charCodes ?long) ''encrypt'' = Inl (Error ''DataError'')"
    by code_simp
  have r2: "importKey demo_platform (take 32 (charCodes ?long)) ''encrypt'' =
      Inr (charCodes ?short)"
    by code_simp
  note inst = overlong_key_is_truncated [OF h1 h2, of "''cf-token''" "[]" demo_token_encrypted]
  have e: "fst (encryptToken demo_platform ''cf-token'' ?long []) = Inr demo_token_encrypted"
    by (subst inst [THEN conjunct1]) code_simp
  have d: "decryptToken demo_platform demo_token_encrypted ?long = Inr ''cf-token''"
    by (subst inst [THEN conjunct2, THEN conjunct1]) code_simp
  note same = inst [THEN conjunct2, THEN conjunct2, rule_format, OF h3]
  show ?thesis
    using h1 h2 r1 r2 e d h3 same [THEN conjunct1] same [THEN conjunct2] by (intro conjI)
qed

text \<open>
  C5, as the code has it. Decryption undoes encryption for the plaintexts that the
  runtime's text decoder recovers from their encoding and that are short enough for
  \<open>String.fromCharCode\<close> to take the nonce and ciphertext as arguments of one call. On a
  runtime whose \<open>atob\<close> undoes \<open>btoa\<close>, whose AES-GCM decryption undoes encryption and
  whose random source fills the nonce, for every key string \<open>K\<close> that decodes to 32 bytes,
  every state of the world and every such plaintext: \<open>encryptToken\<close> draws 12 bytes from
  \<open>getRandomValues\<close>, encrypts under them, and returns the base64 encoding of those 12
  bytes followed by the ciphertext; \<open>decryptToken\<close> of that blob under \<open>K\<close> returns the
  plaintext.
\<close>

theorem decrypt_encrypt:
  assumes b64: "base64_roundtrip P" and aes: "aes_gcm_roundtrip P" and rnd: "random_fills P"
      and key: "base64ToArrayBuffer P (trim P K) = Inr keyData" "length keyData = 32"
      and utf8: "TextDecoder_decode P (TextEncoder_encode P plaintext) = plaintext"
      and fits: "\<forall>n \<le> length (TextEncoder_encode P plaintext) + 28. spread_error P n = None"
    shows "\<exists>ek ct blob.
             length (fst (getRandomValues P 12 w)) = 12 \<and>
             importKey P keyData ''encrypt'' = Inr ek \<and>
             subtle_encrypt P (fst (getRandomValues P 12 w)) ek (TextEncoder_encode P plaintext)
               = Inr ct \<and>
             btoa P (fromCharCode (fst (getRandomValues P 12 w) @ ct)) = Inr blob \<and>
             encryptToken P plaintext K w = (Inr blob, snd (getRandomValues P 12 w)) \<and>
             decryptToken P blob K = Inr plaintext"
proof -
  let ?iv = "fst (getRandomValues P 12 w)"
  let ?data = "TextEncoder_encode P plaintext"
  have liv: "length ?iv = 12"
    using rnd unfolding random_fills_def by blast
  obtain ek dk ct where
    ek: "importKey P keyData ''encrypt'' = Inr ek" and
    dk: "importKey P keyData ''decrypt'' = Inr dk" and
    enc: "subtle_encrypt P ?iv ek ?data = Inr ct" and
    len: "length ct \<le> length ?data + 16" and
    dec: "subtle_decrypt P ?iv dk ct = Inr ?data"
    using aes key(2) liv unfolding aes_gcm_roundtrip_def by blast
  obtain blob where
    enc64: "btoa P (fromCharCode (?iv @ ct)) = Inr blob" and
    dec64: "atob P blob = Inr (fromCharCode (?iv @ ct))"
    using b64 unfolding base64_roundtrip_def by blast
  have "length (?iv @ ct) \<le> length ?data + 28"
    using liv len by simp
  then have "spread_error P (length (?iv @ ct)) = None"
    using fits by blast
  then have a2b: "arrayBufferToBase64 P (?iv @ ct) = Inr blob"
    using enc64 by (simp add: arrayBufferToBase64_def fromCharCode_spread_def and_then_def)
  have e: "encryptToken P plaintext K w = (Inr blob, snd (getRandomValues P 12 w))"
    unfolding encryptToken_with_key [OF key(1)] truncate_key_exact [OF key(2)]
    using ek enc a2b by (simp add: and_then_def)
  have "base64ToArrayBuffer P blob = Inr (?iv @ ct)"
    using dec64 by (simp add: base64ToArrayBuffer_def and_then_def charCodes_fromCharCode)
  then have d: "decryptToken P blob K = Inr plaintext"
    unfolding decryptToken_with_key [OF key(1)] truncate_key_exact [OF key(2)]
    using dk dec liv utf8 by (simp add: and_then_def)
  from liv ek enc enc64 e d show ?thesis by blast
qed

theorem decrypt_encrypt_witness:
  "base64_roundtrip demo_platform \<and> aes_gcm_roundtrip demo_platform \<and>
   random_fills demo_platform \<and>
   base64ToArrayBuffer demo_platform (trim demo_platform (ENCRYPTION_KEY demo_env)) =
     Inr (charCodes ''0123456789abcdef0123456789abcdef'') \<and>
   length (charCodes ''0123456789abcdef0123456789abcdef'') = 32 \<and>
   TextDecoder_decode demo_platform (TextEncoder_encode demo_platform ''cf-token'') =
     ''cf-token'' \<and>
   spread_error demo_platform (length (TextEncoder_encode demo_platform ''cf-token'') + 28)
     = None \<and>
   (\<exists>ek ct blob.
      length (fst (getRandomValues demo_platform 12 [])) = 12 \<and>
      importKey demo_platform (charCodes ''0123456789abcdef0123456789abcdef'') ''encrypt''
        = Inr ek \<and>
      subtle_encrypt demo_platform (fst (getRandomValues demo_platform 12 [])) ek
        (TextEncoder_encode demo_platform ''cf-token'') = Inr ct \<and>
      btoa demo_platform (fromCharCode (fst (getRandomValues demo_platform 12 []) @ ct))
        = Inr blob \<and>
      encryptToken demo_platform ''cf-token'' (ENCRYPTION_KEY demo_env) [] =
        (Inr blob, snd (getRandomValues demo_platform 12 [])) \<and>
      decryptToken demo_platform blob (ENCRYPTION_KEY demo_env) = Inr ''cf-token'')"
proof -
  have len: "length (charCodes ''0123456789abcdef0123456789abcdef'') = 32"
    by (simp add: charCodes_def)
  have utf8: "TextDecoder_decode demo_platform (TextEncoder_encode demo_platform ''cf-token'') =
      ''cf-token''"
    by code_simp
  have fits: "\<forall>n \<le> length (TextEncoder_encode demo_platform ''cf-token'') + 28.
      spread_error demo_platform n = None"
    by (simp add: demo_platform_def charCodes_def)
  have top: "spread_error demo_platform
      (length (TextEncoder_encode demo_platform ''cf-token'') + 28) = None"
    using fits by blast
  show ?thesis
    using demo_base64 demo_aes demo_random demo_key_decoded len utf8 top
      decrypt_encrypt [OF demo_base64 demo_aes demo_random demo_key_decoded len utf8 fits,
        of "[]"]
    by (intro conjI)
qed

text \<open>
  C5, as the spec states it, fails. The runtime of these two runs meets the three
  conditions above. A plaintext that begins with a byte-order mark comes back without
  it; and a plaintext of 101 characters, with this runtime's limit of 100 arguments, is
  not encrypted at all.
\<close>

theorem decrypt_encrypt_counterexample:
  "\<not> isl (fst (encryptToken demo_platform (CHR 0xEF # CHR 0xBB # CHR 0xBF # ''abc'')
               (ENCRYPTION_KEY demo_env) [])) \<and>
   decryptToken demo_platform
     (projr (fst (encryptToken demo_platform (CHR 0xEF # CHR 0xBB # CHR 0xBF # ''abc'')
                    (ENCRYPTION_KEY demo_env) [])))
     (ENCRYPTION_KEY demo_env) = Inr ''abc'' \<and>
   decryptToken demo_platform
     (projr (fst (encryptToken demo_platform (CHR 0xEF # CHR 0xBB # CHR 0xBF # ''abc'')
                    (ENCRYPTION_KEY demo_env) [])))
     (ENCRYPTION_KEY demo_env) \<noteq> Inr (CHR 0xEF # CHR 0xBB # CHR 0xBF # ''abc'') \<and>
   fst (encryptToken demo_platform (replicate 101 (CHR ''a'')) (ENCRYPTION_KEY demo_env) []) =
     Inl (Error ''Encryption failed: Maximum call stack size exceeded'')"
  by code_simp

section \<open>What each remote call changes\<close>

text \<open>
  A call of the API client leaves the database and the console alone and adds its one
  request to the history.
\<close>

lemma fetch_io_effect:
  "fetch_io P req s = (r, s') \<Longrightarrow>
     db s' = db s \<and> console s' = console s \<and> fetched s' = fetched s @ [req]"
  by (auto simp: fetch_io_def split: prod.splits)

lemma bind_fetch_lift_effect:
  "bind_io (fetch_io P req) (\<lambda>response. lift_io (f response)) s = (r, s') \<Longrightarrow>
     db s' = db s \<and> console s' = console s \<and> fetched s' = fetched s @ [req]"
  by (auto simp: bind_io_def lift_io_def split: prod.splits sum.splits dest: fetch_io_effect)

lemma createKVNamespace_effect:
  "createKVNamespace P token accountId title s = (r, s') \<Longrightarrow>
     db s' = db s \<and> console s' = console s \<and>
     fetched s' = fetched s @ [createKVNamespace_request token accountId title]"
  unfolding createKVNamespace_def by (rule bind_fetch_lift_effect)

lemma uploadWorker_effect:
  "uploadWorker P token accountId workerName script bindings s = (r, s') \<Longrightarrow>
     db s' = db s \<and> console s' = console s \<and>
     fetched s' = fetched s @ [uploadWorker_request token accountId workerName script bindings]"
  unfolding uploadWorker_def by (rule bind_fetch_lift_effect)

lemma setWorkerSecret_effect:
  "setWorkerSecret P token accountId workerName n v s = (r, s') \<Longrightarrow>
     db s' = db s \<and> console s' = console s \<and>
     fetched s' = fetched s @ [setWorkerSecret_request token accountId workerName n v]"
  unfolding setWorkerSecret_def by (rule bind_fetch_lift_effect)

lemma addWorkerRoute_effect:
  "addWorkerRoute P token zoneId pattern scriptName s = (r, s') \<Longrightarrow>
     db s' = db s \<and> console s' = console s \<and>
     fetched s' = fetched s @ [addWorkerRoute_request token zoneId pattern scriptName]"
  unfolding addWorkerRoute_def by (rule bind_fetch_lift_effect)

lemma putKVValue_effect:
  "putKVValue P token accountId namespaceId key val s = (r, s') \<Longrightarrow>
     db s' = db s \<and> console s' = console s \<and>
     fetched s' = fetched s @ [putKVValue_request token accountId namespaceId key val]"
  unfolding putKVValue_def by (rule bind_fetch_lift_effect)

lemma deleteWorker_effect:
  "deleteWorker P token accountId workerName s = (r, s') \<Longrightarrow>
     db s' = db s \<and> console s' = console s \<and>
     fetched s' = fetched s @ [deleteWorker_request token accountId workerName]"
  unfolding deleteWorker_def by (rule bind_fetch_lift_effect)

lemma deleteWorkerRoute_effect:
  "deleteWorkerRoute P token zoneId routeId s = (r, s') \<Longrightarrow>
     db s' = db s \<and> console s' = console s \<and>
     fetched s' = fetched s @ [deleteWorkerRoute_request token zoneId routeId]"
  unfolding deleteWorkerRoute_def by (rule bind_fetch_lift_effect)

lemma deleteKVNamespace_effect:
  "deleteKVNamespace P token accountId namespaceId s = (r, s') \<Longrightarrow>
     db s' = db s \<and> console s' = console s \<and>
     fetched s' = fetched s @ [deleteKVNamespace_request token accountId namespaceId]"
  unfolding deleteKVNamespace_def by (rule bind_fetch_lift_effect)

lemma generateApiKey_effect:
  "generateApiKey P s = (r, s') \<Longrightarrow>
     db s' = db s \<and> console s' = console s \<and> fetched s' = fetched s"
  by (auto simp: generateApiKey_def split: prod.splits)

lemma healthCheck_effect:
  "healthCheck P zoneName s = (b, s') \<Longrightarrow>
     db s' = db s \<and> fetched s' = fetched s @ [healthCheck_request zoneName]"
  by (auto simp: healthCheck_def log_error_def split: prod.splits sum.splits
      dest: fetch_io_effect)

lemma upload_loop_db:
  "upload_loop P token accountId kv rows n s = (m, s') \<Longrightarrow> db s' = db s"
proof (induction rows arbitrary: n s)
  case Nil
  then show ?case by simp
next
  case (Cons v rows)
  obtain r s1 where put: "putKVValue P token accountId kv (v_url_path v) (v_content v) s = (r, s1)"
    by (cases "putKVValue P token accountId kv (v_url_path v) (v_content v) s")
  then have "db s1 = db s" by (simp add: putKVValue_effect)
  with Cons put show ?case
    by (cases r) (auto simp: log_error_def)
qed

lemma uploadExistingVariants_db:
  "uploadExistingVariants P token accountId kv userId dep s = (r, s') \<Longrightarrow> db s' = db s"
  by (auto simp: uploadExistingVariants_def split: prod.splits dest: upload_loop_db)

lemma uploadExistingVariants_returns:
  "\<exists>n s'. uploadExistingVariants P token accountId kv userId dep s = (Inr n, s')"
  by (auto simp: uploadExistingVariants_def split: prod.splits)


lemma bind_io_db:
  assumes "bind_io m f s = (r, s')"
      and "\<And>r1 s1. m s = (r1, s1) \<Longrightarrow> db s1 = db s"
      and "\<And>a s1 r2 s2. f a s1 = (r2, s2) \<Longrightarrow> db s2 = db s1"
    shows "db s' = db s"
  using assms by (auto simp: bind_io_def split: prod.splits sum.splits)

lemma lift_io_db: "lift_io x s = (r, s') \<Longrightarrow> db s' = db s"
  by (simp add: lift_io_def)

lemma deploy_remote_db:
  "deploy_remote P env userId siteId zoneId zoneName c s = (r, s') \<Longrightarrow> db s' = db s"
  unfolding deploy_remote_def Let_def
  by (erule bind_io_db
      | erule lift_io_db createKVNamespace_effect [THEN conjunct1]
          uploadWorker_effect [THEN conjunct1] generateApiKey_effect [THEN conjunct1]
          setWorkerSecret_effect [THEN conjunct1] addWorkerRoute_effect [THEN conjunct1]
          uploadExistingVariants_db)+

section \<open>Provisioning\<close>

lemma deploy_throws:
  assumes "active_connection (db s) userId = Some c"
      and "deploy_remote P env userId siteId zoneId zoneName c s = (Inl e, s')"
    shows "deploy P env userId siteId zoneId zoneName s =
             (failure (error_message e ''Unknown deployment error''),
              log_error ''Deployment failed:'' e s')"
  using assms by (simp add: deploy_def)

lemma deploy_persists:
  assumes "active_connection (db s) userId = Some c"
      and "deploy_remote P env userId siteId zoneId zoneName c s = (Inr p, s')"
    shows "deploy P env userId siteId zoneId zoneName s =
             deploy_persist P userId zoneId zoneName p s'"
  using assms by (simp add: deploy_def)

lemma demo_token_decrypts:
  "decryptToken demo_platform demo_token_encrypted (ENCRYPTION_KEY demo_env) = Inr ''cf-token''"
  by code_simp

lemma demo_active_connection: "active_connection demo_db 1 = Some demo_connection"
  by code_simp



text \<open>
  C1. A provisioning run that ends before the deployment row is inserted, because there
  is no active connection or because one of the steps before the insert (decrypting the
  credential, creating the key-value namespace, uploading the worker, setting a secret,
  adding the route) throws, returns a failure result and leaves the database, and so
  the deployments table, unchanged.
\<close>

theorem failed_provisioning_creates_no_row:
  assumes "case active_connection (db s) userId of
             None \<Rightarrow> True
           | Some c \<Rightarrow> isl (fst (deploy_remote P env userId siteId zoneId zoneName c s))"
  shows "deployments (db (snd (deploy P env userId siteId zoneId zoneName s))) =
           deployments (db s) \<and>
         db (snd (deploy P env userId siteId zoneId zoneName s)) = db s \<and>
         \<not> r_success (fst (deploy P env userId siteId zoneId zoneName s))"
proof (cases "active_connection (db s) userId")
  case None
  then show ?thesis by (simp add: deploy_def failure_def)
next
  case (Some c)
  obtain r s' where run: "deploy_remote P env userId siteId zoneId zoneName c s = (r, s')"
    by (cases "deploy_remote P env userId siteId zoneId zoneName c s")
  with assms Some obtain e where e: "r = Inl e" by (cases r) auto
  have "db s' = db s" using run by (rule deploy_remote_db)
  then show ?thesis
    using deploy_throws [OF Some run [unfolded e]]
    by (simp add: failure_def log_error_def)
qed

theorem failed_provisioning_creates_no_row_witness:
  "(case active_connection (db (demo_state demo_db demo_script_route_rejected)) 1 of
      None \<Rightarrow> True
    | Some c \<Rightarrow> isl (fst (deploy_remote demo_platform demo_env 1 ''site'' ''zone1''
                             ''example.com'' c (demo_state demo_db demo_script_route_rejected)))) \<and>
   deployments (db (snd (deploy demo_platform demo_env 1 ''site'' ''zone1'' ''example.com''
       (demo_state demo_db demo_script_route_rejected)))) = [] \<and>
   \<not> r_success (fst (deploy demo_platform demo_env 1 ''site'' ''zone1'' ''example.com''
       (demo_state demo_db demo_script_route_rejected)))"
proof -
  have h: "case active_connection (db (demo_state demo_db demo_script_route_rejected)) 1 of
      None \<Rightarrow> True
    | Some c \<Rightarrow> isl (fst (deploy_remote demo_platform demo_env 1 ''site'' ''zone1''
                             ''example.com'' c (demo_state demo_db demo_script_route_rejected)))"
    by code_simp
  have d: "deployments (db (demo_state demo_db demo_script_route_rejected)) = []"
    by (simp add: demo_state_def demo_db_def)
  show ?thesis
    using h d failed_provisioning_creates_no_row [OF h]
    by simp
qed

section \<open>The invariant of active rows\<close>

lemma healthCheck_db: "db (snd (healthCheck P zoneName s)) = db s"
  by (cases "healthCheck P zoneName s") (simp add: healthCheck_effect)

lemma deploy_persist_deployments:
  "deployments (db (snd (deploy_persist P userId zoneId zoneName p s))) =
     deployments (db s) @
       [\<lparr>d_id = last_row_id (deployments_seq (db s)) (map d_id (deployments (db s))), d_user_id = userId,
         d_zone_id = zoneId, d_zone_name = zoneName, d_worker_name = Some (p_workerName p),
         d_kv_namespace_id = Some (p_kvNamespaceId p),
         d_route_pattern = Some (p_routePattern p),
         d_route_id = Some (result_id (p_route p)),
         d_status = ''active'', d_deployed_at = datetime_now P (world s),
         d_last_updated = datetime_now P (world s)\<rparr>]"
  by (simp add: deploy_persist_def Let_def case_prod_beta healthCheck_db)

lemma deploy_deployments:
  "deployments (db (snd (deploy P env userId siteId zoneId zoneName s))) = deployments (db s) \<or>
   (\<exists>r. d_worker_name r \<noteq> None \<and> d_kv_namespace_id r \<noteq> None \<and>
        deployments (db (snd (deploy P env userId siteId zoneId zoneName s))) =
          deployments (db s) @ [r])"
proof (cases "active_connection (db s) userId")
  case None
  then show ?thesis by (simp add: deploy_def)
next
  case (Some c)
  obtain r s' where run: "deploy_remote P env userId siteId zoneId zoneName c s = (r, s')"
    by (cases "deploy_remote P env userId siteId zoneId zoneName c s")
  have same: "db s' = db s" using run by (rule deploy_remote_db)
  show ?thesis
  proof (cases r)
    case (Inl e)
    then show ?thesis
      using deploy_throws [OF Some run [unfolded Inl]] same by (simp add: log_error_def)
  next
    case (Inr p)
    then show ?thesis
      using deploy_persists [OF Some run [unfolded Inr]] same
      by (simp add: deploy_persist_deployments)
  qed
qed

lemma deploy_keeps_invariant:
  "active_rows_complete (db s) \<Longrightarrow>
   active_rows_complete (db (snd (deploy P env userId siteId zoneId zoneName s)))"
  using deploy_deployments [of P env userId siteId zoneId zoneName s]
  by (auto simp: active_rows_complete_def)

lemma updateVariants_db:
  "db (snd (updateVariants P env deploymentId userId s)) = db s \<or>
   (\<exists>now. db (snd (updateVariants P env deploymentId userId s)) =
      touch_deployment deploymentId now (db s))"
proof (cases "deployment_info (db s) deploymentId userId (Some ''active'')")
  case None
  then show ?thesis
    by (simp add: updateVariants_def log_and_rethrow_def log_error_def)
next
  case (Some dc)
  obtain d c where dc: "dc = (d, c)" by (cases dc)
  show ?thesis
  proof (cases "decryptToken P (c_token_encrypted c) (ENCRYPTION_KEY env)")
    case (Inl e)
    then show ?thesis
      using Some dc
      by (simp add: updateVariants_def log_and_rethrow_def log_error_def bind_io_def
            lift_io_def)
  next
    case (Inr tok)
    obtain n s' where up:
      "uploadExistingVariants P tok (c_account_id c) (as_string (d_kv_namespace_id d)) userId
         (Some deploymentId) s = (Inr n, s')"
      using uploadExistingVariants_returns by blast
    have "db s' = db s" using up by (rule uploadExistingVariants_db)
    then show ?thesis
      using Some dc Inr up
      by (auto simp: updateVariants_def log_and_rethrow_def bind_io_def lift_io_def)
  qed
qed

lemma touch_keeps_invariant:
  "active_rows_complete d \<Longrightarrow> active_rows_complete (touch_deployment i now d)"
  by (auto simp: active_rows_complete_def touch_deployment_def list_all_iff)

lemma updateVariants_keeps_invariant:
  "active_rows_complete (db s) \<Longrightarrow>
   active_rows_complete (db (snd (updateVariants P env deploymentId userId s)))"
  using updateVariants_db [of P env deploymentId userId s]
  by (auto simp: touch_keeps_invariant)

section \<open>Teardown\<close>

lemma best_effort_effect:
  assumes "\<And>r1 s1. m s = (r1, s1) \<Longrightarrow> db s1 = db s \<and> fetched s1 = fetched s @ reqs"
  shows "\<exists>s'. best_effort msg m s = (Inr (), s') \<and> db s' = db s \<and>
              fetched s' = fetched s @ reqs"
proof -
  obtain r1 s1 where m: "m s = (r1, s1)" by (cases "m s")
  from assms [OF m] show ?thesis
    using m by (cases r1) (simp_all add: best_effort_def log_error_def)
qed

text \<open>The requests of the three deletions, the first being skipped when the row has no route id.\<close>

lemma teardown_runs:
  assumes info: "deployment_info (db s) deploymentId userId None = Some (d, c)"
      and tok: "decryptToken P (c_token_encrypted c) (ENCRYPTION_KEY env) = Inr tok"
  shows "\<exists>s3. db s3 = db s \<and>
           fetched s3 = fetched s @
             (case d_route_id d of
                None \<Rightarrow> []
              | Some rid \<Rightarrow>
                  if rid \<noteq> [] then [deleteWorkerRoute_request tok (d_zone_id d) rid] else []) @
             [deleteWorker_request tok (c_account_id c) (as_string (d_worker_name d)),
              deleteKVNamespace_request tok (c_account_id c)
                (as_string (d_kv_namespace_id d))] \<and>
           deleteDeployment P env deploymentId userId s =
             (Inr (),
              s3\<lparr>db := set_api_keys_status deploymentId ''inactive''
                          (set_deployment_status deploymentId ''deleted''
                             (datetime_now P (world s3)) (db s))\<rparr>)"
proof -
  let ?route = "case d_route_id d of
                  None \<Rightarrow> lift_io (Inr ())
                | Some rid \<Rightarrow>
                    if rid \<noteq> [] then deleteWorkerRoute P tok (d_zone_id d) rid
                    else lift_io (Inr ())"
  let ?reqs = "case d_route_id d of
                 None \<Rightarrow> []
               | Some rid \<Rightarrow>
                   if rid \<noteq> [] then [deleteWorkerRoute_request tok (d_zone_id d) rid] else []"
  have "\<And>r1 s1. ?route s = (r1, s1) \<Longrightarrow> db s1 = db s \<and> fetched s1 = fetched s @ ?reqs"
    by (auto simp: lift_io_def split: option.splits if_splits dest: deleteWorkerRoute_effect)
  then obtain s1 where
    s1: "best_effort ''Failed to delete worker route:'' ?route s = (Inr (), s1)"
      "db s1 = db s" "fetched s1 = fetched s @ ?reqs"
    using best_effort_effect [of ?route s ?reqs] by blast
  have "\<And>r2 s2. deleteWorker P tok (c_account_id c) (as_string (d_worker_name d)) s1 = (r2, s2)
      \<Longrightarrow> db s2 = db s1 \<and>
          fetched s2 = fetched s1 @
            [deleteWorker_request tok (c_account_id c) (as_string (d_worker_name d))]"
    by (simp add: deleteWorker_effect)
  then obtain s2 where
    s2: "best_effort ''Failed to delete worker:''
           (deleteWorker P tok (c_account_id c) (as_string (d_worker_name d))) s1 = (Inr (), s2)"
      "db s2 = db s1"
      "fetched s2 = fetched s1 @
         [deleteWorker_request tok (c_account_id c) (as_string (d_worker_name d))]"
    using best_effort_effect
      [of "deleteWorker P tok (c_account_id c) (as_string (d_worker_name d))" s1] by blast
  have "\<And>r3 s3. deleteKVNamespace P tok (c_account_id c) (as_string (d_kv_namespace_id d)) s2
        = (r3, s3)
      \<Longrightarrow> db s3 = db s2 \<and>
          fetched s3 = fetched s2 @
            [deleteKVNamespace_request tok (c_account_id c) (as_string (d_kv_namespace_id d))]"
    by (simp add: deleteKVNamespace_effect)
  then obtain s3 where
    s3: "best_effort ''Failed to delete KV namespace:''
           (deleteKVNamespace P tok (c_account_id c) (as_string (d_kv_namespace_id d))) s2
         = (Inr (), s3)"
      "db s3 = db s2"
      "fetched s3 = fetched s2 @
         [deleteKVNamespace_request tok (c_account_id c) (as_string (d_kv_namespace_id d))]"
    using best_effort_effect
      [of "deleteKVNamespace P tok (c_account_id c) (as_string (d_kv_namespace_id d))" s2]
    by blast
  have "deleteDeployment P env deploymentId userId s =
          (Inr (),
           s3\<lparr>db := set_api_keys_status deploymentId ''inactive''
                       (set_deployment_status deploymentId ''deleted''
                          (datetime_now P (world s3)) (db s))\<rparr>)"
    using info tok s1 s2 s3
    by (simp add: deleteDeployment_def log_and_rethrow_def bind_io_def lift_io_def Let_def)
  moreover have "db s3 = db s" using s1 s2 s3 by simp
  moreover have "fetched s3 = fetched s @ ?reqs @
      [deleteWorker_request tok (c_account_id c) (as_string (d_worker_name d)),
       deleteKVNamespace_request tok (c_account_id c) (as_string (d_kv_namespace_id d))]"
    using s1 s2 s3 by simp
  ultimately show ?thesis by blast
qed

lemma teardown_throws:
  assumes "deployment_info (db s) deploymentId userId None = None \<or>
           (\<exists>d c e. deployment_info (db s) deploymentId userId None = Some (d, c) \<and>
              decryptToken P (c_token_encrypted c) (ENCRYPTION_KEY env) = Inl e)"
  shows "isl (fst (deleteDeployment P env deploymentId userId s)) \<and>
         db (snd (deleteDeployment P env deploymentId userId s)) = db s"
  using assms
  by (auto simp: deleteDeployment_def log_and_rethrow_def bind_io_def lift_io_def
        log_error_def Let_def)

lemma teardown_db:
  "db (snd (deleteDeployment P env deploymentId userId s)) = db s \<or>
   (\<exists>now. db (snd (deleteDeployment P env deploymentId userId s)) =
      set_api_keys_status deploymentId ''inactive''
        (set_deployment_status deploymentId ''deleted'' now (db s)))"
proof (cases "deployment_info (db s) deploymentId userId None")
  case None
  then show ?thesis using teardown_throws [of s deploymentId userId P env] by simp
next
  case (Some dc)
  obtain d c where dc: "dc = (d, c)" by (cases dc)
  show ?thesis
  proof (cases "decryptToken P (c_token_encrypted c) (ENCRYPTION_KEY env)")
    case (Inl e)
    then show ?thesis
      using Some dc teardown_throws [of s deploymentId userId P env] by auto
  next
    case (Inr tok)
    from teardown_runs [OF Some [unfolded dc] Inr] show ?thesis by auto
  qed
qed

lemma teardown_keeps_invariant:
  "active_rows_complete (db s) \<Longrightarrow>
   active_rows_complete (db (snd (deleteDeployment P env deploymentId userId s)))"
  using teardown_db [of P env deploymentId userId s]
  by (auto simp: active_rows_complete_def set_api_keys_status_def set_deployment_status_def
        list_all_iff)

lemma demo_deployed_reachable: "reachable demo_platform demo_env demo_deployed"
  unfolding demo_deployed_def
  by (rule reachable.provision, rule reachable.initial) (simp add: demo_state_def demo_db_def)

lemma demo_deployed_rows: "deployments (db demo_deployed) = [demo_row]"
  by code_simp

text \<open>
  C2. In every reachable state, every deployment row whose status is \<open>active\<close> holds a
  worker name and a key-value namespace id that are not \<open>NULL\<close>; and from any state in
  which that holds, provisioning, resync and teardown lead to a state in which it holds.
\<close>

theorem active_rows_name_their_resources:
  "(reachable P env s \<longrightarrow>
      (\<forall>r \<in> set (deployments (db s)).
         d_status r = ''active'' \<longrightarrow>
         d_worker_name r \<noteq> None \<and> d_kv_namespace_id r \<noteq> None)) \<and>
   (active_rows_complete (db s) \<longrightarrow>
      active_rows_complete (db (snd (deploy P env userId siteId zoneId zoneName s))) \<and>
      active_rows_complete (db (snd (updateVariants P env deploymentId userId s))) \<and>
      active_rows_complete (db (snd (deleteDeployment P env deploymentId userId s))))"
proof -
  have "reachable P env s \<Longrightarrow> active_rows_complete (db s)"
  proof (induction rule: reachable.induct)
    case (initial s)
    then show ?case by (simp add: active_rows_complete_def)
  next
    case (provision s userId siteId zoneId zoneName)
    then show ?case by (simp add: deploy_keeps_invariant)
  next
    case (resync s deploymentId userId)
    then show ?case by (simp add: updateVariants_keeps_invariant)
  next
    case (teardown s deploymentId userId)
    then show ?case by (simp add: teardown_keeps_invariant)
  next
    case (elsewhere s s')
    then show ?case by (simp add: active_rows_complete_def)
  qed
  then show ?thesis
    by (auto simp: active_rows_complete_def [of "db s"] list_all_iff deploy_keeps_invariant
          updateVariants_keeps_invariant teardown_keeps_invariant)
qed

theorem active_rows_name_their_resources_witness:
  "reachable demo_platform demo_env demo_deployed \<and>
   demo_row \<in> set (deployments (db demo_deployed)) \<and>
   d_status demo_row = ''active'' \<and>
   d_worker_name demo_row \<noteq> None \<and> d_kv_namespace_id demo_row \<noteq> None \<and>
   active_rows_complete (db demo_deployed) \<and>
   active_rows_complete
     (db (snd (deploy demo_platform demo_env 1 ''site'' ''zone1'' ''example.com''
                 demo_deployed))) \<and>
   active_rows_complete (db (snd (updateVariants demo_platform demo_env 1 1 demo_deployed))) \<and>
   active_rows_complete (db (snd (deleteDeployment demo_platform demo_env 1 1 demo_deployed)))"
proof -
  have row: "demo_row \<in> set (deployments (db demo_deployed))"
    by (simp add: demo_deployed_rows)
  have act: "d_status demo_row = ''active''"
    by (simp add: demo_row_def)
  have inv: "active_rows_complete (db demo_deployed)"
    by (simp add: active_rows_complete_def demo_deployed_rows demo_row_def)
  show ?thesis
    using demo_deployed_reachable row act inv
      active_rows_name_their_resources [of demo_platform demo_env demo_deployed 1 "''site''"
        "''zone1''" "''example.com''" 1]
    by blast
qed

lemma find_map_same:
  "(\<And>x. Q (f x) = Q x) \<Longrightarrow> find Q (map f xs) = map_option f (find Q xs)"
  by (induction xs) auto

lemma deployment_info_after_teardown:
  assumes "deployment_info d deploymentId userId None = Some (r, c)"
  shows "deployment_info
           (set_api_keys_status deploymentId st (set_deployment_status deploymentId st' now d))
           deploymentId userId None =
         Some (r\<lparr>d_status := st', d_last_updated := now\<rparr>, c)"
proof -
  let ?f = "\<lambda>r. if d_id r = deploymentId then r\<lparr>d_status := st', d_last_updated := now\<rparr> else r"
  let ?Q = "\<lambda>r. d_id r = deploymentId \<and> d_user_id r = userId"
  have comp: "\<And>x. ?Q (?f x) = ?Q x" by auto
  from assms obtain
    fr: "find ?Q (deployments d) = Some r" and
    fc: "find (\<lambda>c. c_user_id c = d_user_id r) (cloudflare_connections d) = Some c"
    by (auto simp: deployment_info_def split: option.splits)
  from fr have idr: "d_id r = deploymentId"
    by (auto simp: find_Some_iff)
  have "find ?Q (map ?f (deployments d)) = map_option ?f (find ?Q (deployments d))"
    using comp by (rule find_map_same)
  then have "find ?Q (map ?f (deployments d)) = Some (?f r)"
    by (simp only: fr option.map)
  then show ?thesis
    using fc idr
    by (simp add: deployment_info_def set_api_keys_status_def set_deployment_status_def)
qed

lemma set_deployment_status_rows:
  "list_all (\<lambda>x. d_id x = i \<longrightarrow> d_status x = st)
     (map (\<lambda>r. if d_id r = i then r\<lparr>d_status := st, d_last_updated := now\<rparr> else r) rows)"
  by (induction rows) simp_all

lemma set_deployment_status_marks:
  "\<forall>x \<in> set (deployments (set_api_keys_status i st' (set_deployment_status i st now d))).
     d_id x = i \<longrightarrow> d_status x = st"
proof -
  have eq: "deployments (set_api_keys_status i st' (set_deployment_status i st now d)) =
      map (\<lambda>r. if d_id r = i then r\<lparr>d_status := st, d_last_updated := now\<rparr> else r)
        (deployments d)"
    by (simp add: set_api_keys_status_def set_deployment_status_def)
  show ?thesis
    by (simp only: eq list_all_iff [symmetric] set_deployment_status_rows)
qed

lemma set_api_keys_status_rows:
  "list_all (\<lambda>k. k_deployment_id k = Some i \<longrightarrow> k_status k = st)
     (map (\<lambda>k. if k_deployment_id k = Some i then k\<lparr>k_status := st\<rparr> else k) rows)"
  by (induction rows) simp_all

lemma set_api_keys_status_marks:
  "\<forall>k \<in> set (api_keys (set_api_keys_status i st' d)).
     k_deployment_id k = Some i \<longrightarrow> k_status k = st'"
proof -
  have eq: "api_keys (set_api_keys_status i st' d) =
      map (\<lambda>k. if k_deployment_id k = Some i then k\<lparr>k_status := st'\<rparr> else k) (api_keys d)"
    by (simp add: set_api_keys_status_def)
  show ?thesis
    by (simp only: eq list_all_iff [symmetric] set_api_keys_status_rows)
qed

lemma teardown_marks:
  "(\<forall>x \<in> set (deployments
       (set_api_keys_status i ''inactive'' (set_deployment_status i ''deleted'' now d))).
      d_id x = i \<longrightarrow> d_status x = ''deleted'') \<and>
   (\<forall>k \<in> set (api_keys
       (set_api_keys_status i ''inactive'' (set_deployment_status i ''deleted'' now d))).
      k_deployment_id k = Some i \<longrightarrow> k_status k = ''inactive'')"
  using set_deployment_status_marks [of i "''inactive''" "''deleted''" now d]
    set_api_keys_status_marks [of i "''inactive''" "set_deployment_status i ''deleted'' now d"]
  by (rule conjI)

text \<open>
  C3. When the deployment is on file with its owner's connection and the stored
  credential decrypts, teardown attempts the deletion of the route (if the row has a
  route id), of the worker and of the key-value namespace, and then, whatever the
  remote platform answered to each of the three, returns without error with the
  deployment row marked \<open>deleted\<close> and its API keys marked \<open>inactive\<close>. A second teardown
  of the same deployment, in whatever state the outside world then is, also returns
  without error and leaves the same marks.
\<close>

theorem teardown_is_unconditional:
  assumes info: "deployment_info (db s) deploymentId userId None = Some (d, c)"
      and tok: "decryptToken P (c_token_encrypted c) (ENCRYPTION_KEY env) = Inr tok"
      and first: "deleteDeployment P env deploymentId userId s = (r, s')"
      and later: "db t = db s'"
      and second: "deleteDeployment P env deploymentId userId t = (r', t')"
  shows "r = Inr () \<and>
         fetched s' = fetched s @
           (case d_route_id d of
              None \<Rightarrow> []
            | Some rid \<Rightarrow>
                if rid \<noteq> [] then [deleteWorkerRoute_request tok (d_zone_id d) rid] else []) @
           [deleteWorker_request tok (c_account_id c) (as_string (d_worker_name d)),
            deleteKVNamespace_request tok (c_account_id c) (as_string (d_kv_namespace_id d))] \<and>
         (\<exists>now. deployment_info (db s') deploymentId userId None =
                  Some (d\<lparr>d_status := ''deleted'', d_last_updated := now\<rparr>, c)) \<and>
         (\<forall>x \<in> set (deployments (db s')). d_id x = deploymentId \<longrightarrow> d_status x = ''deleted'') \<and>
         (\<forall>k \<in> set (api_keys (db s')).
            k_deployment_id k = Some deploymentId \<longrightarrow> k_status k = ''inactive'') \<and>
         r' = Inr () \<and>
         (\<forall>x \<in> set (deployments (db t')). d_id x = deploymentId \<longrightarrow> d_status x = ''deleted'') \<and>
         (\<forall>k \<in> set (api_keys (db t')).
            k_deployment_id k = Some deploymentId \<longrightarrow> k_status k = ''inactive'')"
proof -
  from teardown_runs [OF info tok] obtain s3 where
    hist: "fetched s3 = fetched s @
           (case d_route_id d of
              None \<Rightarrow> []
            | Some rid \<Rightarrow>
                if rid \<noteq> [] then [deleteWorkerRoute_request tok (d_zone_id d) rid] else []) @
           [deleteWorker_request tok (c_account_id c) (as_string (d_worker_name d)),
            deleteKVNamespace_request tok (c_account_id c) (as_string (d_kv_namespace_id d))]" and
    run: "deleteDeployment P env deploymentId userId s =
            (Inr (), s3\<lparr>db := set_api_keys_status deploymentId ''inactive''
                          (set_deployment_status deploymentId ''deleted''
                             (datetime_now P (world s3)) (db s))\<rparr>)"
    by blast
  from run first have r: "r = Inr ()" and
    s': "s' = s3\<lparr>db := set_api_keys_status deploymentId ''inactive''
                          (set_deployment_status deploymentId ''deleted''
                             (datetime_now P (world s3)) (db s))\<rparr>"
    by simp_all
  let ?now = "datetime_now P (world s3)"
  let ?d' = "d\<lparr>d_status := ''deleted'', d_last_updated := ?now\<rparr>"
  have db': "db s' = set_api_keys_status deploymentId ''inactive''
                       (set_deployment_status deploymentId ''deleted'' ?now (db s))"
    using s' by simp
  have info': "deployment_info (db s') deploymentId userId None = Some (?d', c)"
    unfolding db' using info by (rule deployment_info_after_teardown)
  have marks: "(\<forall>x \<in> set (deployments (db s')). d_id x = deploymentId \<longrightarrow> d_status x = ''deleted'') \<and>
         (\<forall>k \<in> set (api_keys (db s')).
            k_deployment_id k = Some deploymentId \<longrightarrow> k_status k = ''inactive'')"
    unfolding db' by (rule teardown_marks)
  from info' have info_t: "deployment_info (db t) deploymentId userId None = Some (?d', c)"
    by (simp only: later)
  from teardown_runs [OF info_t tok] obtain t3 where
    run': "deleteDeployment P env deploymentId userId t =
            (Inr (), t3\<lparr>db := set_api_keys_status deploymentId ''inactive''
                          (set_deployment_status deploymentId ''deleted''
                             (datetime_now P (world t3)) (db t))\<rparr>)"
    by blast
  from run' second have r': "r' = Inr ()" and
    t': "t' = t3\<lparr>db := set_api_keys_status deploymentId ''inactive''
                          (set_deployment_status deploymentId ''deleted''
                             (datetime_now P (world t3)) (db t))\<rparr>"
    by simp_all
  have dbt': "db t' = set_api_keys_status deploymentId ''inactive''
                       (set_deployment_status deploymentId ''deleted''
                          (datetime_now P (world t3)) (db t))"
    using t' by simp
  have marks': "(\<forall>x \<in> set (deployments (db t')). d_id x = deploymentId \<longrightarrow> d_status x = ''deleted'') \<and>
         (\<forall>k \<in> set (api_keys (db t')).
            k_deployment_id k = Some deploymentId \<longrightarrow> k_status k = ''inactive'')"
    unfolding dbt' by (rule teardown_marks)
  have "fetched s' = fetched s3" using s' by simp
  then have hist': "fetched s' = fetched s @
           (case d_route_id d of
              None \<Rightarrow> []
            | Some rid \<Rightarrow>
                if rid \<noteq> [] then [deleteWorkerRoute_request tok (d_zone_id d) rid] else []) @
           [deleteWorker_request tok (c_account_id c) (as_string (d_worker_name d)),
            deleteKVNamespace_request tok (c_account_id c) (as_string (d_kv_namespace_id d))]"
    by (simp only: hist)
  have ex: "\<exists>now. deployment_info (db s') deploymentId userId None =
                  Some (d\<lparr>d_status := ''deleted'', d_last_updated := now\<rparr>, c)"
    by (rule exI [where x = ?now]) (rule info')
  note m1 = marks [THEN conjunct1] and m2 = marks [THEN conjunct2]
    and m1' = marks' [THEN conjunct1] and m2' = marks' [THEN conjunct2]
  show ?thesis
    using r hist' ex m1 m2 r' m1' m2' by (intro conjI)
qed

theorem teardown_is_unconditional_witness:
  "deployment_info (db demo_deployed) 1 1 None = Some (demo_row, demo_connection) \<and>
   decryptToken demo_platform (c_token_encrypted demo_connection) (ENCRYPTION_KEY demo_env) =
     Inr ''cf-token'' \<and>
   fst (deleteDeployment demo_platform demo_env 1 1 demo_deployed) = Inr () \<and>
   console (snd (deleteDeployment demo_platform demo_env 1 1 demo_deployed)) =
     console demo_deployed @
       [console_error ''Failed to delete worker route:'' (Error ''fetch failed''),
        console_error ''Failed to delete worker:'' (Error ''fetch failed''),
        console_error ''Failed to delete KV namespace:'' (Error ''fetch failed'')] \<and>
   map d_status (deployments (db (snd (deleteDeployment demo_platform demo_env 1 1
       demo_deployed)))) = [''deleted''] \<and>
   map k_status (api_keys (db (snd (deleteDeployment demo_platform demo_env 1 1
       demo_deployed)))) = [''inactive''] \<and>
   fst (deleteDeployment demo_platform demo_env 1 1
          (snd (deleteDeployment demo_platform demo_env 1 1 demo_deployed))) = Inr ()"
proof -
  let ?X = "deleteDeployment demo_platform demo_env 1 1 demo_deployed"
  let ?Y = "deleteDeployment demo_platform demo_env 1 1 (snd ?X)"
  have info: "deployment_info (db demo_deployed) 1 1 None = Some (demo_row, demo_connection)"
    by code_simp
  have tok: "decryptToken demo_platform (c_token_encrypted demo_connection)
      (ENCRYPTION_KEY demo_env) = Inr ''cf-token''"
    by code_simp
  have first: "?X = (fst ?X, snd ?X)" by simp
  have later: "db (snd ?X) = db (snd ?X)" by (rule refl)
  have second: "?Y = (fst ?Y, snd ?Y)" by simp
  note inst = teardown_is_unconditional [OF info tok first later second]
  have r: "fst ?X = Inr ()" using inst by (rule conjunct1)
  have r': "fst ?Y = Inr ()"
    using inst [THEN conjunct2, THEN conjunct2, THEN conjunct2, THEN conjunct2,
      THEN conjunct2] by (rule conjunct1)
  have c: "console (snd ?X) =
     console demo_deployed @
       [console_error ''Failed to delete worker route:'' (Error ''fetch failed''),
        console_error ''Failed to delete worker:'' (Error ''fetch failed''),
        console_error ''Failed to delete KV namespace:'' (Error ''fetch failed'')]"
    by code_simp
  have d: "map d_status (deployments (db (snd ?X))) = [''deleted'']"
    by code_simp
  have k: "map k_status (api_keys (db (snd ?X))) = [''inactive'']"
    by code_simp
  show ?thesis
    using info tok r c d k r' by (intro conjI)
qed

section \<open>What teardown leaves alone\<close>

lemma status_only_rows:
  "list_all2 (\<lambda>old new. new\<lparr>d_status := d_status old, d_last_updated := d_last_updated old\<rparr> = old)
     rows (map (\<lambda>r. if d_id r = i then r\<lparr>d_status := st, d_last_updated := now\<rparr> else r) rows)"
  by (induction rows) simp_all

lemma other_rows_kept:
  "filter (\<lambda>r. d_id r \<noteq> i)
     (map (\<lambda>r. if d_id r = i then r\<lparr>d_status := st, d_last_updated := now\<rparr> else r) rows) =
   filter (\<lambda>r. d_id r \<noteq> i) rows"
  by (induction rows) simp_all

lemma status_only_keys:
  "list_all2 (\<lambda>old new. new\<lparr>k_status := k_status old\<rparr> = old)
     rows (map (\<lambda>k. if k_deployment_id k = Some i then k\<lparr>k_status := st\<rparr> else k) rows)"
  by (induction rows) simp_all

lemma other_keys_kept:
  "filter (\<lambda>k. k_deployment_id k \<noteq> Some i)
     (map (\<lambda>k. if k_deployment_id k = Some i then k\<lparr>k_status := st\<rparr> else k) rows) =
   filter (\<lambda>k. k_deployment_id k \<noteq> Some i) rows"
  by (induction rows) simp_all

lemma same_rows: "list_all2 (\<lambda>old new. f new old = old) rows rows \<longleftrightarrow> list_all (\<lambda>r. f r r = r) rows"
  by (induction rows) simp_all

text \<open>
  C10. Teardown does not touch the variants table, whatever its outcome. Nor does it
  touch the connections table. In the deployments table it changes nothing but the
  \<open>status\<close> and \<open>last_updated\<close> columns, and no row of another deployment; in the
  api_keys table nothing but the \<open>status\<close> column, and no key of another deployment. No
  row is added or removed.
\<close>

theorem teardown_leaves_variants:
  "variants (db (snd (deleteDeployment P env deploymentId userId s))) = variants (db s) \<and>
   cloudflare_connections (db (snd (deleteDeployment P env deploymentId userId s))) =
     cloudflare_connections (db s) \<and>
   list_all2
     (\<lambda>old new. new\<lparr>d_status := d_status old, d_last_updated := d_last_updated old\<rparr> = old)
     (deployments (db s))
     (deployments (db (snd (deleteDeployment P env deploymentId userId s)))) \<and>
   filter (\<lambda>r. d_id r \<noteq> deploymentId)
       (deployments (db (snd (deleteDeployment P env deploymentId userId s)))) =
     filter (\<lambda>r. d_id r \<noteq> deploymentId) (deployments (db s)) \<and>
   list_all2 (\<lambda>old new. new\<lparr>k_status := k_status old\<rparr> = old)
     (api_keys (db s))
     (api_keys (db (snd (deleteDeployment P env deploymentId userId s)))) \<and>
   filter (\<lambda>k. k_deployment_id k \<noteq> Some deploymentId)
       (api_keys (db (snd (deleteDeployment P env deploymentId userId s)))) =
     filter (\<lambda>k. k_deployment_id k \<noteq> Some deploymentId) (api_keys (db s))"
proof -
  let ?D = "db (snd (deleteDeployment P env deploymentId userId s))"
  from teardown_db [of P env deploymentId userId s]
  consider (same) "?D = db s"
    | (marked) now where "?D = set_api_keys_status deploymentId ''inactive''
        (set_deployment_status deploymentId ''deleted'' now (db s))"
    by blast
  then show ?thesis
  proof cases
    case same
    have a: "list_all2
       (\<lambda>old new. new\<lparr>d_status := d_status old, d_last_updated := d_last_updated old\<rparr> = old)
       (deployments (db s)) (deployments (db s))"
      by (simp add: list_all2_same)
    have b: "list_all2 (\<lambda>old new. new\<lparr>k_status := k_status old\<rparr> = old)
       (api_keys (db s)) (api_keys (db s))"
      by (simp add: list_all2_same)
    show ?thesis unfolding same using a b by (intro conjI refl)
  next
    case marked
    have v: "variants ?D = variants (db s)"
      unfolding marked by (simp add: set_api_keys_status_def set_deployment_status_def)
    have c: "cloudflare_connections ?D = cloudflare_connections (db s)"
      unfolding marked by (simp add: set_api_keys_status_def set_deployment_status_def)
    have dd: "deployments ?D =
        map (\<lambda>r. if d_id r = deploymentId
                 then r\<lparr>d_status := ''deleted'', d_last_updated := now\<rparr> else r)
          (deployments (db s))"
      unfolding marked by (simp add: set_api_keys_status_def set_deployment_status_def)
    have kk: "api_keys ?D =
        map (\<lambda>k. if k_deployment_id k = Some deploymentId then k\<lparr>k_status := ''inactive''\<rparr> else k)
          (api_keys (db s))"
      unfolding marked by (simp add: set_api_keys_status_def set_deployment_status_def)
    show ?thesis
      unfolding v c dd kk
      by (intro conjI refl status_only_rows other_rows_kept status_only_keys other_keys_kept)
  qed
qed

theorem teardown_leaves_variants_witness:
  "variants (db (snd (deleteDeployment demo_platform demo_env 1 1 demo_deployed))) =
     variants (db demo_deployed) \<and>
   length (variants (db demo_deployed)) = 3 \<and>
   map d_status (deployments (db demo_deployed)) = [''active''] \<and>
   map d_status (deployments (db (snd (deleteDeployment demo_platform demo_env 1 1
       demo_deployed)))) = [''deleted'']"
proof -
  have v: "variants (db (snd (deleteDeployment demo_platform demo_env 1 1 demo_deployed))) =
     variants (db demo_deployed)"
    using teardown_leaves_variants [of demo_platform demo_env 1 1 demo_deployed]
    by (rule conjunct1)
  have n: "length (variants (db demo_deployed)) = 3" by code_simp
  have a: "map d_status (deployments (db demo_deployed)) = [''active'']" by code_simp
  have d: "map d_status (deployments (db (snd (deleteDeployment demo_platform demo_env 1 1
       demo_deployed)))) = [''deleted'']"
    by code_simp
  show ?thesis using v n a d by (intro conjI)
qed

section \<open>Content sync\<close>

lemma upload_loop_count:
  "fst (upload_loop P token accountId kv rows n s) =
     n + length (filter (\<lambda>r. \<not> isl r) (put_results P token accountId kv rows s))"
proof (induction rows arbitrary: n s)
  case Nil
  then show ?case by simp
next
  case (Cons v rows)
  obtain r s1 where put: "putKVValue P token accountId kv (v_url_path v) (v_content v) s = (r, s1)"
    by (cases "putKVValue P token accountId kv (v_url_path v) (v_content v) s")
  show ?case
  proof (cases r)
    case (Inl e)
    then show ?thesis using put Cons.IH by simp
  next
    case (Inr u)
    then show ?thesis using put Cons.IH by simp
  qed
qed

lemma put_results_length:
  "length (put_results P token accountId kv rows s) = length rows"
proof (induction rows arbitrary: s)
  case Nil
  then show ?case by simp
next
  case (Cons v rows)
  obtain r s1 where put: "putKVValue P token accountId kv (v_url_path v) (v_content v) s = (r, s1)"
    by (cases "putKVValue P token accountId kv (v_url_path v) (v_content v) s")
  show ?case
  proof (cases r)
    case (Inl e)
    then show ?thesis using put Cons.IH by simp
  next
    case (Inr u)
    then show ?thesis using put Cons.IH by simp
  qed
qed

lemma successes_and_failures:
  "length (filter (\<lambda>r. \<not> isl r) rs) = length rs - length (filter isl rs)"
  by (induction rs) (simp_all add: Suc_diff_le)

lemma uploadExistingVariants_count:
  "fst (uploadExistingVariants P token accountId kv userId dep s) =
     Inr (length (select_variants (db s) userId dep) -
          length (filter isl (put_results P token accountId kv
                                (select_variants (db s) userId dep) s)))"
  using upload_loop_count [of P token accountId kv "select_variants (db s) userId dep" 0 s]
  by (simp add: uploadExistingVariants_def case_prod_beta successes_and_failures
        put_results_length)

lemma uploadExistingVariants_split:
  "uploadExistingVariants P token accountId kv userId dep s =
     (Inr (fst (upload_loop P token accountId kv (select_variants (db s) userId dep) 0 s)),
      snd (upload_loop P token accountId kv (select_variants (db s) userId dep) 0 s))"
  by (simp add: uploadExistingVariants_def case_prod_beta)

lemma upload_loop_fetched:
  "fetched (snd (upload_loop P token accountId kv rows n s)) =
     fetched s @ map (\<lambda>v. putKVValue_request token accountId kv (v_url_path v) (v_content v)) rows"
proof (induction rows arbitrary: n s)
  case Nil
  then show ?case by simp
next
  case (Cons v rows)
  obtain r s1 where put: "putKVValue P token accountId kv (v_url_path v) (v_content v) s = (r, s1)"
    by (cases "putKVValue P token accountId kv (v_url_path v) (v_content v) s")
  have f: "fetched s1 =
      fetched s @ [putKVValue_request token accountId kv (v_url_path v) (v_content v)]"
    using put by (simp add: putKVValue_effect)
  show ?case
  proof (cases r)
    case (Inl e)
    then show ?thesis using put f Cons.IH by (simp add: log_error_def)
  next
    case (Inr u)
    then show ?thesis using put f Cons.IH by simp
  qed
qed

lemma updateVariants_returns:
  assumes info: "deployment_info (db s) deploymentId userId (Some ''active'') = Some (d, c)"
      and tok: "decryptToken P (c_token_encrypted c) (ENCRYPTION_KEY env) = Inr tok"
  shows "updateVariants P env deploymentId userId s =
           (Inr (fst (upload_loop P tok (c_account_id c) (as_string (d_kv_namespace_id d))
                        (select_variants (db s) userId (Some deploymentId)) 0 s)),
            (snd (upload_loop P tok (c_account_id c) (as_string (d_kv_namespace_id d))
                    (select_variants (db s) userId (Some deploymentId)) 0 s))
              \<lparr>db := touch_deployment deploymentId
                 (datetime_now P (world (snd (upload_loop P tok (c_account_id c)
                    (as_string (d_kv_namespace_id d))
                    (select_variants (db s) userId (Some deploymentId)) 0 s))))
                 (db (snd (upload_loop P tok (c_account_id c)
                    (as_string (d_kv_namespace_id d))
                    (select_variants (db s) userId (Some deploymentId)) 0 s)))\<rparr>)"
  using info tok
  by (simp add: updateVariants_def log_and_rethrow_def bind_io_def lift_io_def Let_def
        uploadExistingVariants_split)

text \<open>
  C4. For an active deployment on file whose credential decrypts, resync returns without
  throwing, whatever the remote platform answers to the writes: one write is sent for
  every selected variant row, in order, a failed write not stopping the ones after it, and
  the number returned is the number \<open>T\<close> of selected rows minus the number \<open>F\<close> of
  writes that failed. The selected rows are the caller's active variants of that
  deployment.
\<close>

theorem resync_counts_successes:
  assumes info: "deployment_info (db s) deploymentId userId (Some ''active'') = Some (d, c)"
      and tok: "decryptToken P (c_token_encrypted c) (ENCRYPTION_KEY env) = Inr tok"
  shows "let rows = select_variants (db s) userId (Some deploymentId);
             results = put_results P tok (c_account_id c) (as_string (d_kv_namespace_id d))
                         rows s
         in length results = length rows \<and>
            fst (updateVariants P env deploymentId userId s) =
              Inr (length rows - length (filter isl results)) \<and>
            fetched (snd (updateVariants P env deploymentId userId s)) =
              fetched s @
              map (\<lambda>v. putKVValue_request tok (c_account_id c)
                         (as_string (d_kv_namespace_id d)) (v_url_path v) (v_content v)) rows \<and>
            (deploymentId \<noteq> 0 \<longrightarrow>
               rows = filter (\<lambda>v. v_user_id v = userId \<and> v_status v = ''active'' \<and>
                                  v_deployment_id v = deploymentId) (variants (db s)))"
proof -
  let ?rows = "select_variants (db s) userId (Some deploymentId)"
  note run = updateVariants_returns [OF info tok]
  have n: "fst (updateVariants P env deploymentId userId s) =
      Inr (length ?rows -
        length (filter isl (put_results P tok (c_account_id c)
                              (as_string (d_kv_namespace_id d)) ?rows s)))"
    unfolding run
    by (simp only: fst_conv upload_loop_count successes_and_failures put_results_length add_0)
  have h: "fetched (snd (updateVariants P env deploymentId userId s)) =
      fetched s @
      map (\<lambda>v. putKVValue_request tok (c_account_id c)
                 (as_string (d_kv_namespace_id d)) (v_url_path v) (v_content v)) ?rows"
    unfolding run by (simp add: upload_loop_fetched)
  have f: "deploymentId \<noteq> 0 \<longrightarrow>
      ?rows = filter (\<lambda>v. v_user_id v = userId \<and> v_status v = ''active'' \<and>
                         v_deployment_id v = deploymentId) (variants (db s))"
    by (simp add: select_variants_def)
  have l: "length (put_results P tok (c_account_id c) (as_string (d_kv_namespace_id d)) ?rows s)
      = length ?rows"
    by (rule put_results_length)
  show ?thesis
    unfolding Let_def using l n h f by (intro conjI)
qed

theorem resync_counts_successes_witness:
  "deployment_info (db demo_resync_state) 1 1 (Some ''active'') =
     Some (demo_row, demo_connection) \<and>
   decryptToken demo_platform (c_token_encrypted demo_connection) (ENCRYPTION_KEY demo_env) =
     Inr ''cf-token'' \<and>
   length (select_variants (db demo_resync_state) 1 (Some 1)) = 3 \<and>
   length (filter isl
     (put_results demo_platform ''cf-token'' (c_account_id demo_connection)
        (as_string (d_kv_namespace_id demo_row))
        (select_variants (db demo_resync_state) 1 (Some 1)) demo_resync_state)) = 1 \<and>
   fst (updateVariants demo_platform demo_env 1 1 demo_resync_state) = Inr 2"
proof -
  have info: "deployment_info (db demo_resync_state) 1 1 (Some ''active'') =
     Some (demo_row, demo_connection)"
    by code_simp
  have tok: "decryptToken demo_platform (c_token_encrypted demo_connection)
      (ENCRYPTION_KEY demo_env) = Inr ''cf-token''"
    by code_simp
  have t: "length (select_variants (db demo_resync_state) 1 (Some 1)) = 3"
    by code_simp
  have f: "length (filter isl
     (put_results demo_platform ''cf-token'' (c_account_id demo_connection)
        (as_string (d_kv_namespace_id demo_row))
        (select_variants (db demo_resync_state) 1 (Some 1)) demo_resync_state)) = 1"
    by code_simp
  have "fst (updateVariants demo_platform demo_env 1 1 demo_resync_state) = Inr 2"
    using resync_counts_successes [OF info tok, unfolded Let_def, THEN conjunct2,
      THEN conjunct1] t f
    by simp
  with info tok t f show ?thesis by (intro conjI)
qed

section \<open>What reaches the console\<close>






lemma deploy_persist_result:
  "fst (deploy_persist P userId zoneId zoneName p s) =
     \<lparr>r_success = True,
      r_deploymentId = Some (last_row_id (deployments_seq (db s)) (map d_id (deployments (db s)))),
      r_workerName = Some (p_workerName p), r_kvNamespaceId = Some (p_kvNamespaceId p),
      r_error = None, r_variantsUploaded = Some (p_variantsUploaded p)\<rparr>"
  by (simp add: deploy_persist_def Let_def case_prod_beta)





section \<open>The provisioning sequence, step by step\<close>

lemma deploy_after_route:
  assumes conn: "active_connection (db s) userId = Some c"
      and h1: "decryptToken P (c_token_encrypted c) (ENCRYPTION_KEY env) = Inr tok"
      and h2: "createKVNamespace P tok (c_account_id c) (''axp-variants-'' @ siteId) s
                 = (Inr kv, s1)"
      and h3: "uploadWorker P tok (c_account_id c) (''axp-'' @ siteId) (getClientWorkerCode P)
                 [JObject [(''type'', JString ''kv_namespace''),
                           (''name'', JString ''VARIANTS''),
                           (''namespace_id'', JString (result_id kv))]] s1 = (Inr u1, s2)"
      and h4: "generateApiKey P s2 = (Inr key, s3)"
      and h5: "setWorkerSecret P tok (c_account_id c) (''axp-'' @ siteId) ''CLIENT_API_KEY'' key s3
                 = (Inr u2, s4)"
      and h6: "setWorkerSecret P tok (c_account_id c) (''axp-'' @ siteId) ''SITE_ID'' siteId s4
                 = (Inr u3, s5)"
      and h7: "setWorkerSecret P tok (c_account_id c) (''axp-'' @ siteId) ''API_ENDPOINT''
                 (API_BASE_URL env) s5 = (Inr u4, s6)"
      and h8: "addWorkerRoute P tok zoneId (zoneName @ ''/*'') (''axp-'' @ siteId) s6
                 = (Inr route, s7)"
  shows "deploy P env userId siteId zoneId zoneName s =
           deploy_persist P userId zoneId zoneName
             \<lparr>p_workerName = ''axp-'' @ siteId, p_kvNamespaceId = result_id kv,
              p_keyHash = hashApiKey P key, p_routePattern = zoneName @ ''/*'',
              p_route = route,
              p_variantsUploaded =
                fst (upload_loop P tok (c_account_id c) (result_id kv)
                       (select_variants (db s7) userId None) 0 s7)\<rparr>
             (snd (upload_loop P tok (c_account_id c) (result_id kv)
                     (select_variants (db s7) userId None) 0 s7))"
  using conn h1 h2 h3 h4 h5 h6 h7 h8
  by (simp add: deploy_def deploy_remote_def bind_io_def lift_io_def Let_def
        uploadExistingVariants_split)

lemma deploy_steps_db:
  assumes h2: "createKVNamespace P tok acc title s = (Inr kv, s1)"
      and h3: "uploadWorker P tok acc wn script bindings s1 = (Inr u1, s2)"
      and h4: "generateApiKey P s2 = (Inr key, s3)"
      and h5: "setWorkerSecret P tok acc wn n1 key s3 = (Inr u2, s4)"
      and h6: "setWorkerSecret P tok acc wn n2 v2 s4 = (Inr u3, s5)"
      and h7: "setWorkerSecret P tok acc wn n3 v3 s5 = (Inr u4, s6)"
      and h8: "addWorkerRoute P tok zoneId pattern wn s6 = (Inr route, s7)"
  shows "db s7 = db s \<and>
         fetched s7 = fetched s @
           [createKVNamespace_request tok acc title,
            uploadWorker_request tok acc wn script bindings,
            setWorkerSecret_request tok acc wn n1 key,
            setWorkerSecret_request tok acc wn n2 v2,
            setWorkerSecret_request tok acc wn n3 v3,
            addWorkerRoute_request tok zoneId pattern wn]"
  using createKVNamespace_effect [OF h2] uploadWorker_effect [OF h3]
    generateApiKey_effect [OF h4] setWorkerSecret_effect [OF h5]
    setWorkerSecret_effect [OF h6] setWorkerSecret_effect [OF h7]
    addWorkerRoute_effect [OF h8]
  by simp




section \<open>When the digest is persisted\<close>

lemma bind_io_returnsE:
  assumes "bind_io m f s = (Inr b, s')"
  obtains a s1 where "m s = (Inr a, s1)" and "f a s1 = (Inr b, s')"
  using assms by (auto simp: bind_io_def split: prod.splits sum.splits)

lemma deploy_persist_fetched:
  "fetched (snd (deploy_persist P userId zoneId zoneName p s)) =
     fetched s @ [healthCheck_request zoneName]"
  unfolding deploy_persist_def Let_def case_prod_beta
  apply (simp split del: if_split)
  apply (rule trans)
   apply (rule healthCheck_effect [THEN conjunct2])
   apply (rule prod.collapse [symmetric])
  apply simp
  done

lemma deploy_persist_api_keys:
  "api_keys (db (snd (deploy_persist P userId zoneId zoneName p s))) =
     api_keys (db s) @
       [\<lparr>k_id = last_row_id (api_keys_seq (db s)) (map k_id (api_keys (db s))), k_user_id = userId,
         k_key_hash = p_keyHash p,
         k_deployment_id = Some (last_row_id (deployments_seq (db s)) (map d_id (deployments (db s)))),
         k_created_at = datetime_now P (world s), k_status = ''active''\<rparr>]"
  by (simp add: deploy_persist_def Let_def case_prod_beta healthCheck_db)

lemma deploy_remote_returns:
  assumes "deploy_remote P env userId siteId zoneId zoneName c s = (Inr p, s')"
  obtains tok kv s1 u1 s2 key s3 u2 s4 u3 s5 u4 s6 route s7 where
    "decryptToken P (c_token_encrypted c) (ENCRYPTION_KEY env) = Inr tok"
    "createKVNamespace P tok (c_account_id c) (''axp-variants-'' @ siteId) s = (Inr kv, s1)"
    "uploadWorker P tok (c_account_id c) (''axp-'' @ siteId) (getClientWorkerCode P)
       [JObject [(''type'', JString ''kv_namespace''),
                 (''name'', JString ''VARIANTS''),
                 (''namespace_id'', JString (result_id kv))]] s1 = (Inr u1, s2)"
    "generateApiKey P s2 = (Inr key, s3)"
    "setWorkerSecret P tok (c_account_id c) (''axp-'' @ siteId) ''CLIENT_API_KEY'' key s3
       = (Inr u2, s4)"
    "setWorkerSecret P tok (c_account_id c) (''axp-'' @ siteId) ''SITE_ID'' siteId s4
       = (Inr u3, s5)"
    "setWorkerSecret P tok (c_account_id c) (''axp-'' @ siteId) ''API_ENDPOINT''
       (API_BASE_URL env) s5 = (Inr u4, s6)"
    "addWorkerRoute P tok zoneId (zoneName @ ''/*'') (''axp-'' @ siteId) s6 = (Inr route, s7)"
  using assms unfolding deploy_remote_def Let_def
  apply (elim bind_io_returnsE)
  apply (simp add: lift_io_def)
  done

text \<open>
  C6, as the code has it. The per-deployment secret is generated, and its digest
  computed, before the three worker secrets (the secret itself, the site identifier, the
  callback endpoint) are set; these are set before the route is added. The digest is
  not persisted at that step: a run that fails persists no digest, and a run that
  succeeds has sent its requests in the order namespace, worker, the three secrets, route,
  variant writes, health probe, and has added exactly one deployment row, active, and
  one api_keys row, active, that holds the digest of the secret sent as
  \<open>CLIENT_API_KEY\<close> and references the id of the new deployment row.
\<close>

theorem digest_is_persisted_with_the_row:
  assumes conn: "active_connection (db s) userId = Some c"
  shows
    "let run = deploy P env userId siteId zoneId zoneName s;
         accountId = c_account_id c;
         workerName = ''axp-'' @ siteId
     in
     (\<not> r_success (fst run) \<longrightarrow>
        api_keys (db (snd run)) = api_keys (db s) \<and>
        deployments (db (snd run)) = deployments (db s)) \<and>
     (r_success (fst run) \<longrightarrow>
        (\<exists>tok (kv :: cf_result) key row keyrow.
           decryptToken P (c_token_encrypted c) (ENCRYPTION_KEY env) = Inr tok \<and>
           fetched (snd run) = fetched s @
             [createKVNamespace_request tok accountId (''axp-variants-'' @ siteId),
              uploadWorker_request tok accountId workerName (getClientWorkerCode P)
                [JObject [(''type'', JString ''kv_namespace''),
                          (''name'', JString ''VARIANTS''),
                          (''namespace_id'', JString (result_id kv))]],
              setWorkerSecret_request tok accountId workerName ''CLIENT_API_KEY'' key,
              setWorkerSecret_request tok accountId workerName ''SITE_ID'' siteId,
              setWorkerSecret_request tok accountId workerName ''API_ENDPOINT''
                (API_BASE_URL env),
              addWorkerRoute_request tok zoneId (zoneName @ ''/*'') workerName] @
             map (\<lambda>v. putKVValue_request tok accountId (result_id kv) (v_url_path v)
                        (v_content v))
               (select_variants (db s) userId None) @
             [healthCheck_request zoneName] \<and>
           deployments (db (snd run)) = deployments (db s) @ [row] \<and>
           d_status row = ''active'' \<and>
           api_keys (db (snd run)) = api_keys (db s) @ [keyrow] \<and>
           k_key_hash keyrow = hashApiKey P key \<and>
           k_deployment_id keyrow = Some (d_id row) \<and>
           k_status keyrow = ''active''))"
proof -
  let ?run = "deploy P env userId siteId zoneId zoneName s"
  obtain r s' where remote: "deploy_remote P env userId siteId zoneId zoneName c s = (r, s')"
    by (cases "deploy_remote P env userId siteId zoneId zoneName c s")
  have same: "db s' = db s" using remote by (rule deploy_remote_db)
  show ?thesis
  proof (cases r)
    case (Inl e)
    have run: "?run = (failure (error_message e ''Unknown deployment error''),
                       log_error ''Deployment failed:'' e s')"
      using conn remote [unfolded Inl] by (rule deploy_throws)
    have "\<not> r_success (fst ?run)" unfolding run by (simp add: failure_def)
    moreover have "db (snd ?run) = db s" unfolding run by (simp add: log_error_def same)
    ultimately show ?thesis by (simp add: Let_def)
  next
    case (Inr p)
    from remote [unfolded Inr] obtain tok kv s1 u1 s2 key s3 u2 s4 u3 s5 u4 s6 route s7 where
      h1: "decryptToken P (c_token_encrypted c) (ENCRYPTION_KEY env) = Inr tok" and
      h2: "createKVNamespace P tok (c_account_id c) (''axp-variants-'' @ siteId) s = (Inr kv, s1)" and
      h3: "uploadWorker P tok (c_account_id c) (''axp-'' @ siteId) (getClientWorkerCode P)
         [JObject [(''type'', JString ''kv_namespace''),
                   (''name'', JString ''VARIANTS''),
                   (''namespace_id'', JString (result_id kv))]] s1 = (Inr u1, s2)" and
      h4: "generateApiKey P s2 = (Inr key, s3)" and
      h5: "setWorkerSecret P tok (c_account_id c) (''axp-'' @ siteId) ''CLIENT_API_KEY'' key s3
         = (Inr u2, s4)" and
      h6: "setWorkerSecret P tok (c_account_id c) (''axp-'' @ siteId) ''SITE_ID'' siteId s4
         = (Inr u3, s5)" and
      h7: "setWorkerSecret P tok (c_account_id c) (''axp-'' @ siteId) ''API_ENDPOINT''
         (API_BASE_URL env) s5 = (Inr u4, s6)" and
      h8: "addWorkerRoute P tok zoneId (zoneName @ ''/*'') (''axp-'' @ siteId) s6 = (Inr route, s7)"
      by (rule deploy_remote_returns)
    let ?rows = "select_variants (db s7) userId None"
    let ?p = "\<lparr>p_workerName = ''axp-'' @ siteId, p_kvNamespaceId = result_id kv,
              p_keyHash = hashApiKey P key, p_routePattern = zoneName @ ''/*'',
              p_route = route,
              p_variantsUploaded =
                fst (upload_loop P tok (c_account_id c) (result_id kv) ?rows 0 s7)\<rparr>"
    let ?s8 = "snd (upload_loop P tok (c_account_id c) (result_id kv) ?rows 0 s7)"
    have run: "?run = deploy_persist P userId zoneId zoneName ?p ?s8"
      using conn h1 h2 h3 h4 h5 h6 h7 h8 by (rule deploy_after_route)
    note steps = deploy_steps_db [OF h2 h3 h4 h5 h6 h7 h8]
    have db7: "db s7 = db s" using steps by (rule conjunct1)
    have db8: "db ?s8 = db s"
      using upload_loop_db [of P tok "c_account_id c" "result_id kv" ?rows 0 s7 "fst (upload_loop P tok (c_account_id c) (result_id kv) ?rows 0 s7)" ?s8]
      by (simp add: db7)
    have ok: "r_success (fst ?run)"
      unfolding run by (simp add: deploy_persist_result)
    have hist: "fetched (snd ?run) = fetched s @
             [createKVNamespace_request tok (c_account_id c) (''axp-variants-'' @ siteId),
              uploadWorker_request tok (c_account_id c) (''axp-'' @ siteId) (getClientWorkerCode P)
                [JObject [(''type'', JString ''kv_namespace''),
                          (''name'', JString ''VARIANTS''),
                          (''namespace_id'', JString (result_id kv))]],
              setWorkerSecret_request tok (c_account_id c) (''axp-'' @ siteId) ''CLIENT_API_KEY'' key,
              setWorkerSecret_request tok (c_account_id c) (''axp-'' @ siteId) ''SITE_ID'' siteId,
              setWorkerSecret_request tok (c_account_id c) (''axp-'' @ siteId) ''API_ENDPOINT''
                (API_BASE_URL env),
              addWorkerRoute_request tok zoneId (zoneName @ ''/*'') (''axp-'' @ siteId)] @
             map (\<lambda>v. putKVValue_request tok (c_account_id c) (result_id kv) (v_url_path v)
                        (v_content v))
               (select_variants (db s) userId None) @
             [healthCheck_request zoneName]"
      unfolding run deploy_persist_fetched upload_loop_fetched
      using steps [THEN conjunct2] by (simp only: db7 append_assoc)
    let ?row = "\<lparr>d_id = last_row_id (deployments_seq (db s)) (map d_id (deployments (db s))), d_user_id = userId,
         d_zone_id = zoneId, d_zone_name = zoneName, d_worker_name = Some (p_workerName ?p),
         d_kv_namespace_id = Some (p_kvNamespaceId ?p),
         d_route_pattern = Some (p_routePattern ?p),
         d_route_id = Some (result_id (p_route ?p)),
         d_status = ''active'', d_deployed_at = datetime_now P (world ?s8),
         d_last_updated = datetime_now P (world ?s8)\<rparr>"
    let ?keyrow = "\<lparr>k_id = last_row_id (api_keys_seq (db s)) (map k_id (api_keys (db s))), k_user_id = userId,
         k_key_hash = p_keyHash ?p,
         k_deployment_id = Some (last_row_id (deployments_seq (db s)) (map d_id (deployments (db s)))),
         k_created_at = datetime_now P (world ?s8), k_status = ''active''\<rparr>"
    have rows: "deployments (db (snd ?run)) = deployments (db s) @ [?row]"
      unfolding run deploy_persist_deployments db8 by (rule refl)
    have keys: "api_keys (db (snd ?run)) = api_keys (db s) @ [?keyrow]"
      unfolding run deploy_persist_api_keys db8 by (rule refl)
    have "\<exists>tok (kv :: cf_result) key row keyrow.
           decryptToken P (c_token_encrypted c) (ENCRYPTION_KEY env) = Inr tok \<and>
           fetched (snd ?run) = fetched s @
             [createKVNamespace_request tok (c_account_id c) (''axp-variants-'' @ siteId),
              uploadWorker_request tok (c_account_id c) (''axp-'' @ siteId) (getClientWorkerCode P)
                [JObject [(''type'', JString ''kv_namespace''),
                          (''name'', JString ''VARIANTS''),
                          (''namespace_id'', JString (result_id kv))]],
              setWorkerSecret_request tok (c_account_id c) (''axp-'' @ siteId) ''CLIENT_API_KEY'' key,
              setWorkerSecret_request tok (c_account_id c) (''axp-'' @ siteId) ''SITE_ID'' siteId,
              setWorkerSecret_request tok (c_account_id c) (''axp-'' @ siteId) ''API_ENDPOINT''
                (API_BASE_URL env),
              addWorkerRoute_request tok zoneId (zoneName @ ''/*'') (''axp-'' @ siteId)] @
             map (\<lambda>v. putKVValue_request tok (c_account_id c) (result_id kv) (v_url_path v)
                        (v_content v))
               (select_variants (db s) userId None) @
             [healthCheck_request zoneName] \<and>
           deployments (db (snd ?run)) = deployments (db s) @ [row] \<and>
           d_status row = ''active'' \<and>
           api_keys (db (snd ?run)) = api_keys (db s) @ [keyrow] \<and>
           k_key_hash keyrow = hashApiKey P key \<and>
           k_deployment_id keyrow = Some (d_id row) \<and>
           k_status keyrow = ''active''"
      apply (intro exI conjI)
             apply (rule h1)
            apply (rule hist)
           apply (rule rows)
          apply simp
         apply (rule keys)
        apply simp
       apply simp
      apply simp
      done
    with ok show ?thesis by (simp only: Let_def simp_thms)
  qed
qed

theorem digest_is_persisted_with_the_row_witness:
  "active_connection (db (demo_state demo_db demo_script)) 1 = Some demo_connection \<and>
   r_success (fst (deploy demo_platform demo_env 1 ''site'' ''zone1'' ''example.com''
                     (demo_state demo_db demo_script))) \<and>
   (\<exists>tok (kv :: cf_result) key row keyrow.
      decryptToken demo_platform (c_token_encrypted demo_connection) (ENCRYPTION_KEY demo_env)
        = Inr tok \<and>
      fetched (snd (deploy demo_platform demo_env 1 ''site'' ''zone1'' ''example.com''
                      (demo_state demo_db demo_script))) =
        fetched (demo_state demo_db demo_script) @
        [createKVNamespace_request tok (c_account_id demo_connection)
           (''axp-variants-'' @ ''site''),
         uploadWorker_request tok (c_account_id demo_connection) (''axp-'' @ ''site'')
           (getClientWorkerCode demo_platform)
           [JObject [(''type'', JString ''kv_namespace''),
                     (''name'', JString ''VARIANTS''),
                     (''namespace_id'', JString (result_id kv))]],
         setWorkerSecret_request tok (c_account_id demo_connection) (''axp-'' @ ''site'')
           ''CLIENT_API_KEY'' key,
         setWorkerSecret_request tok (c_account_id demo_connection) (''axp-'' @ ''site'')
           ''SITE_ID'' ''site'',
         setWorkerSecret_request tok (c_account_id demo_connection) (''axp-'' @ ''site'')
           ''API_ENDPOINT'' (API_BASE_URL demo_env),
         addWorkerRoute_request tok ''zone1'' (''example.com'' @ ''/*'') (''axp-'' @ ''site'')] @
        map (\<lambda>v. putKVValue_request tok (c_account_id demo_connection) (result_id kv)
                   (v_url_path v) (v_content v))
          (select_variants (db (demo_state demo_db demo_script)) 1 None) @
        [healthCheck_request ''example.com''] \<and>
      deployments (db (snd (deploy demo_platform demo_env 1 ''site'' ''zone1'' ''example.com''
                              (demo_state demo_db demo_script)))) =
        deployments (db (demo_state demo_db demo_script)) @ [row] \<and>
      d_status row = ''active'' \<and>
      api_keys (db (snd (deploy demo_platform demo_env 1 ''site'' ''zone1'' ''example.com''
                           (demo_state demo_db demo_script)))) =
        api_keys (db (demo_state demo_db demo_script)) @ [keyrow] \<and>
      k_key_hash keyrow = hashApiKey demo_platform key \<and>
      k_deployment_id keyrow = Some (d_id row) \<and>
      k_status keyrow = ''active'') \<and>
   active_connection (db (demo_state demo_db demo_script_route_rejected)) 1 =
     Some demo_connection \<and>
   \<not> r_success (fst (deploy demo_platform demo_env 1 ''site'' ''zone1'' ''example.com''
                       (demo_state demo_db demo_script_route_rejected))) \<and>
   api_keys (db (snd (deploy demo_platform demo_env 1 ''site'' ''zone1'' ''example.com''
                        (demo_state demo_db demo_script_route_rejected)))) =
     api_keys (db (demo_state demo_db demo_script_route_rejected))"
proof -
  have conn: "active_connection (db (demo_state demo_db demo_script)) 1 = Some demo_connection"
    by code_simp
  have ok: "r_success (fst (deploy demo_platform demo_env 1 ''site'' ''zone1'' ''example.com''
                     (demo_state demo_db demo_script)))"
    by code_simp
  have conn': "active_connection (db (demo_state demo_db demo_script_route_rejected)) 1 =
      Some demo_connection"
    by code_simp
  have nok: "\<not> r_success (fst (deploy demo_platform demo_env 1 ''site'' ''zone1''
      ''example.com'' (demo_state demo_db demo_script_route_rejected)))"
    by code_simp
  note succeeded = digest_is_persisted_with_the_row [OF conn, where P = demo_platform
      and env = demo_env and siteId = "''site''" and zoneId = "''zone1''"
      and zoneName = "''example.com''", unfolded Let_def, THEN conjunct2, rule_format, OF ok]
  note failed = digest_is_persisted_with_the_row [OF conn', where P = demo_platform
      and env = demo_env and siteId = "''site''" and zoneId = "''zone1''"
      and zoneName = "''example.com''", unfolded Let_def, THEN conjunct1, rule_format, OF nok,
      THEN conjunct1]
  show ?thesis
    using conn ok succeeded conn' nok failed by (intro conjI)
qed

text \<open>
  C6, as the spec states it, fails: in the run below the three worker secrets were set
  and accepted and the route request was sent, yet, the route having been rejected, no
  digest is in the api_keys table.
\<close>

theorem digest_persisted_at_secrets_step_counterexample:
  "fetched (snd (deploy demo_platform demo_env 1 ''site'' ''zone1'' ''example.com''
                   (demo_state demo_db demo_script_route_rejected))) =
     [createKVNamespace_request ''cf-token'' ''acc1'' ''axp-variants-site'',
      uploadWorker_request ''cf-token'' ''acc1'' ''axp-site'' ''export default {}''
        [JObject [(''type'', JString ''kv_namespace''),
                  (''name'', JString ''VARIANTS''),
                  (''namespace_id'', JString ''kv1'')]],
      setWorkerSecret_request ''cf-token'' ''acc1'' ''axp-site'' ''CLIENT_API_KEY''
        (''sk_live_'' @ replicate 24 (CHR 0x07)),
      setWorkerSecret_request ''cf-token'' ''acc1'' ''axp-site'' ''SITE_ID'' ''site'',
      setWorkerSecret_request ''cf-token'' ''acc1'' ''axp-site'' ''API_ENDPOINT''
        ''https://api.example.com'',
      addWorkerRoute_request ''cf-token'' ''zone1'' ''example.com/*'' ''axp-site''] \<and>
   api_keys (db (snd (deploy demo_platform demo_env 1 ''site'' ''zone1'' ''example.com''
                        (demo_state demo_db demo_script_route_rejected)))) = [] \<and>
   fst (deploy demo_platform demo_env 1 ''site'' ''zone1'' ''example.com''
          (demo_state demo_db demo_script_route_rejected)) =
     failure ''Failed to add worker route: route conflict''"
  by code_simp

end
